theory Spec2Isabelle
  imports Main "HOL-Library.Word"
begin

section \<open>Data model (internal/models/quota.go, the auth package)\<close>

text \<open>
  Capacities are Go \<open>int64\<close> values: 64-bit two's complement words, read with \<open>sint\<close>.
  Go's \<open>-\<close> on them is the wrapping word subtraction. Times are abstract clock readings.
  Field names of the request structs carry a prefix, since a record field is a global
  constant: \<open>create_\<close> (QuotaCreateRequest), \<open>alloc_\<close> (QuotaAllocateRequest),
  \<open>req_\<close> (QuotaUsageRequest), \<open>user_\<close> (auth.UserInfo), \<open>usage_\<close> (QuotaUsage),
  \<open>audit_\<close> (QuotaAuditLog). The transport fields ServiceID and EncryptedData, which the
  service functions never read, are left out.
\<close>

type_synonym int64 = "64 word"

record Quota =
  ID :: string
  Name :: string
  Description :: string
  Type :: string
  TotalMB :: int64
  UsedMB :: int64
  AllocatedMB :: int64
  AvailableMB :: int64
  ParentQuotaID :: "string option"
  Level :: int
  Path :: string
  OwnerID :: string
  OrganizationID :: string
  TeamID :: "string option"
  Status :: string
  CreatedAt :: nat
  UpdatedAt :: nat
  DeletedAt :: "nat option"

record QuotaUsage =
  usage_ID :: string
  usage_QuotaID :: string
  usage_UserID :: string
  usage_ResourceID :: string
  usage_UsageMB :: int64
  usage_Operation :: string
  usage_Reason :: string
  usage_CreatedAt :: nat

datatype json = JString string | JNumber int64 | JNull

record QuotaAuditLog =
  audit_ID :: string
  audit_QuotaID :: string
  audit_ActionType :: string
  audit_ActorUserID :: string
  audit_TargetUserID :: "string option"
  audit_Details :: "(string \<times> json) list"
  audit_CreatedAt :: nat

definition QuotaTypeOrganization :: string where "QuotaTypeOrganization = ''organization''"
definition QuotaTypeTeam :: string where "QuotaTypeTeam = ''team''"
definition QuotaStatusActive :: string where "QuotaStatusActive = ''active''"
definition QuotaStatusSuspended :: string where "QuotaStatusSuspended = ''suspended''"
definition QuotaStatusDeleted :: string where "QuotaStatusDeleted = ''deleted''"
definition OperationAllocate :: string where "OperationAllocate = ''allocate''"
definition OperationDeallocate :: string where "OperationDeallocate = ''deallocate''"
definition QuotaPermissionRead :: string where "QuotaPermissionRead = ''read''"
definition QuotaPermissionAdmin :: string where "QuotaPermissionAdmin = ''admin''"

record QuotaCreateRequest =
  create_Name :: string
  create_Description :: string
  create_Type :: string
  create_TotalMB :: int64
  create_TeamID :: "string option"

record QuotaAllocateRequest =
  alloc_Name :: string
  alloc_Description :: string
  alloc_AllocateMB :: int64
  alloc_Type :: string
  alloc_TargetID :: string
  alloc_AdminUserIDs :: "string list"

record QuotaUsageRequest =
  req_ResourceID :: string
  req_UsageMB :: int64
  req_Reason :: string

record UserInfo =
  user_UserID :: string
  user_OrganizationID :: string
  user_TeamIDs :: "string list"

text \<open>
  The service returns Go errors built with \<open>fmt.Errorf\<close>; the model keeps one
  constructor per error kind of the specification and names the message of each raise
  site where it is raised.
\<close>

datatype error =
    ValidationError
  | PermissionDenied
  | NotFound
  | InsufficientCapacity
  | HierarchyViolation
  | BusyResource
  | StorageError
  | UpstreamError

section \<open>The store (migrations/001_initial_schema.sql, database.WithTransaction)\<close>

text \<open>
  The three tables, each a list of rows in insertion order. The store is PostgreSQL
  (the database package opens it with the \<open>postgres\<close> driver and the schema is
  PostgreSQL's). A statement fails when a constraint of the schema is violated: a
  primary key, a foreign key, a CHECK, or the range of BIGINT and INTEGER. Column
  length limits and failures of the connection are not modelled.
\<close>

record DB =
  quotas :: "Quota list"
  quota_usage :: "QuotaUsage list"
  quota_audit_logs :: "QuotaAuditLog list"

definition bigint_ok :: "int \<Rightarrow> bool" where
  "bigint_ok v \<longleftrightarrow> - (2 ^ 63) \<le> v \<and> v < 2 ^ 63"

text \<open>The CHECK constraints of table \<open>quotas\<close> and the range of its INTEGER column.\<close>

definition quotas_check :: "Quota \<Rightarrow> bool" where
  "quotas_check r \<longleftrightarrow>
     (Type r = ''organization'' \<or> Type r = ''team'') \<and>
     0 \<le> sint (TotalMB r) \<and>
     0 \<le> sint (UsedMB r) \<and>
     0 \<le> sint (AllocatedMB r) \<and>
     0 \<le> Level r \<and> Level r < 2 ^ 31 \<and>
     (Status r = ''active'' \<or> Status r = ''suspended'' \<or> Status r = ''deleted'') \<and>
     sint (UsedMB r) + sint (AllocatedMB r) \<le> sint (TotalMB r)"

text \<open>\<open>available_mb BIGINT GENERATED ALWAYS AS (total_mb - used_mb - allocated_mb) STORED\<close>\<close>

definition generated :: "Quota \<Rightarrow> Quota" where
  "generated r = r\<lparr>AvailableMB := TotalMB r - UsedMB r - AllocatedMB r\<rparr>"

text \<open>\<open>INSERT INTO quotas\<close>: primary key \<open>id\<close>, \<open>parent_quota_id REFERENCES quotas(id)\<close>.\<close>

definition insert_quota :: "Quota \<Rightarrow> DB \<Rightarrow> DB option" where
  "insert_quota q db =
     (if ID q \<in> set (map ID (quotas db)) then None
      else if \<not> quotas_check q then None
      else if (case ParentQuotaID q of None \<Rightarrow> False
               | Some p \<Rightarrow> p \<notin> set (map ID (quotas db))) then None
      else Some (db\<lparr>quotas := quotas db @ [generated q]\<rparr>))"

text \<open>
  \<open>UPDATE quotas SET ... WHERE id = $n\<close>: the SET clause is a function of the old row
  that fails when a BIGINT expression overflows; every new row must pass the CHECKs.
  A statement that matches no row succeeds and changes nothing.
\<close>

fun update_rows :: "string \<Rightarrow> (Quota \<Rightarrow> Quota option) \<Rightarrow> Quota list \<Rightarrow> Quota list option" where
  "update_rows i f [] = Some []"
| "update_rows i f (r # rs) =
     (if ID r = i then
        (case f r of
           None \<Rightarrow> None
         | Some r' \<Rightarrow>
             if quotas_check r' then map_option ((#) (generated r')) (update_rows i f rs)
             else None)
      else map_option ((#) r) (update_rows i f rs))"

definition update_quota :: "string \<Rightarrow> (Quota \<Rightarrow> Quota option) \<Rightarrow> DB \<Rightarrow> DB option" where
  "update_quota i f db =
     (case update_rows i f (quotas db) of
        None \<Rightarrow> None
      | Some rs \<Rightarrow> Some (db\<lparr>quotas := rs\<rparr>))"

text \<open>The SET clauses of the four UPDATE statements of the service.\<close>

definition set_allocated_plus :: "int64 \<Rightarrow> nat \<Rightarrow> Quota \<Rightarrow> Quota option" where
  "set_allocated_plus n now r =
     (if bigint_ok (sint (AllocatedMB r) + sint n)
      then Some (r\<lparr>AllocatedMB := AllocatedMB r + n, UpdatedAt := now\<rparr>) else None)"

definition set_allocated_minus :: "int64 \<Rightarrow> nat \<Rightarrow> Quota \<Rightarrow> Quota option" where
  "set_allocated_minus n now r =
     (if bigint_ok (sint (AllocatedMB r) - sint n)
      then Some (r\<lparr>AllocatedMB := AllocatedMB r - n, UpdatedAt := now\<rparr>) else None)"

definition set_used_plus :: "int64 \<Rightarrow> nat \<Rightarrow> Quota \<Rightarrow> Quota option" where
  "set_used_plus n now r =
     (if bigint_ok (sint (UsedMB r) + sint n)
      then Some (r\<lparr>UsedMB := UsedMB r + n, UpdatedAt := now\<rparr>) else None)"

definition set_used_minus :: "int64 \<Rightarrow> nat \<Rightarrow> Quota \<Rightarrow> Quota option" where
  "set_used_minus n now r =
     (if bigint_ok (sint (UsedMB r) - sint n)
      then Some (r\<lparr>UsedMB := UsedMB r - n, UpdatedAt := now\<rparr>) else None)"

definition set_deleted :: "nat \<Rightarrow> Quota \<Rightarrow> Quota option" where
  "set_deleted now r =
     Some (r\<lparr>Status := QuotaStatusDeleted, DeletedAt := Some now, UpdatedAt := now\<rparr>)"

text \<open>
  \<open>INSERT INTO quota_usage\<close>: primary key, \<open>quota_id REFERENCES quotas(id)\<close>,
  \<open>CHECK (usage_mb > 0)\<close>, \<open>CHECK (operation IN ('allocate', 'deallocate'))\<close>.
\<close>

definition insert_usage :: "QuotaUsage \<Rightarrow> DB \<Rightarrow> DB option" where
  "insert_usage u db =
     (if usage_ID u \<in> set (map usage_ID (quota_usage db)) then None
      else if usage_QuotaID u \<notin> set (map ID (quotas db)) then None
      else if \<not> 0 < sint (usage_UsageMB u) then None
      else if \<not> (usage_Operation u = ''allocate'' \<or> usage_Operation u = ''deallocate'') then None
      else Some (db\<lparr>quota_usage := quota_usage db @ [u]\<rparr>))"

text \<open>\<open>INSERT INTO quota_audit_logs\<close>: primary key, \<open>quota_id REFERENCES quotas(id)\<close>.\<close>

definition insert_audit :: "QuotaAuditLog \<Rightarrow> DB \<Rightarrow> DB option" where
  "insert_audit a db =
     (if audit_ID a \<in> set (map audit_ID (quota_audit_logs db)) then None
      else if audit_QuotaID a \<notin> set (map ID (quotas db)) then None
      else Some (db\<lparr>quota_audit_logs := quota_audit_logs db @ [a]\<rparr>))"

text \<open>
  What the closure passed to \<open>WithTransaction\<close> works on: the transaction's view of
  the database, whether a statement of the transaction has failed, the requests the
  closure has sent to the authorization service and the Warn-level lines it has logged
  (both are outside the database and are not undone by a rollback; Info-level lines are
  not modelled).
\<close>

datatype auth_call =
    CheckPermissionCall UserInfo string "string list"
  | CreateResourceCall UserInfo string string string string
  | GrantPermissionCall UserInfo string string "string list"

record TxState =
  work :: DB
  failed :: bool
  calls :: "auth_call list"
  warnings :: "string list"

text \<open>
  \<open>tx.Exec\<close>. In PostgreSQL a statement that raises an error leaves the transaction
  in the failed state: the statement has no effect and every later statement of the
  transaction is rejected.
\<close>

definition Exec :: "(DB \<Rightarrow> DB option) \<Rightarrow> TxState \<Rightarrow> error option \<times> TxState" where
  "Exec stmt tx =
     (if failed tx then (Some StorageError, tx)
      else case stmt (work tx) of
             None \<Rightarrow> (Some StorageError, tx\<lparr>failed := True\<rparr>)
           | Some d \<Rightarrow> (None, tx\<lparr>work := d\<rparr>))"

text \<open>
  The system outside one call: the committed database, the requests sent to the
  authorization service so far and the warnings logged so far.
\<close>

record Sys =
  store :: DB
  sent :: "auth_call list"
  logged :: "string list"

text \<open>
  \<open>WithTransaction\<close>. The closure's error (\<open>Inl\<close>) rolls back. When the closure
  returns nil (\<open>Inr\<close>, with the value it left in the captured variable) the deferred
  function commits; COMMIT of a failed transaction rolls back and reports an error, which
  the deferred function assigns to the local \<open>err\<close> after the (unnamed) result has been
  set, so the caller still receives nil.
\<close>

definition WithTransaction :: "(TxState \<Rightarrow> (error + 'a) \<times> TxState) \<Rightarrow> Sys \<Rightarrow> (error + 'a) \<times> Sys" where
  "WithTransaction fn sys =
     (case fn \<lparr>work = store sys, failed = False, calls = sent sys, warnings = logged sys\<rparr> of
        (Inl e, tx) \<Rightarrow> (Inl e, \<lparr>store = store sys, sent = calls tx, logged = warnings tx\<rparr>)
      | (Inr v, tx) \<Rightarrow>
          (Inr v, \<lparr>store = (if failed tx then store sys else work tx),
                   sent = calls tx, logged = warnings tx\<rparr>))"


section \<open>The authorization service (auth.AuthClient)\<close>

text \<open>
  The answers of the external service to the three requests of the client:
  \<open>CheckPermission\<close> returns \<open>(bool, error)\<close>, the other two an error or nil.
\<close>

record AuthClient =
  CheckPermission :: "UserInfo \<Rightarrow> string \<Rightarrow> string list \<Rightarrow> error + bool"
  CreateResource :: "UserInfo \<Rightarrow> string \<Rightarrow> string \<Rightarrow> string \<Rightarrow> string \<Rightarrow> error option"
  GrantPermission :: "UserInfo \<Rightarrow> string \<Rightarrow> string \<Rightarrow> string list \<Rightarrow> error option"

section \<open>The quota service (services.QuotaService)\<close>

text \<open>
  Generated identifiers: each function takes the 13 characters cut from a fresh UUID
  (\<open>strings.ToLower(uuid.New().String()[:13])\<close>) as an argument, and \<open>now\<close> for the
  clock.
\<close>

subsection \<open>Helper functions\<close>

text \<open>The WHERE clause of both lookups: \<open>id = $1 AND status != 'deleted'\<close>.\<close>

definition live :: "string \<Rightarrow> Quota \<Rightarrow> bool" where
  "live quotaID r \<longleftrightarrow> ID r = quotaID \<and> Status r \<noteq> QuotaStatusDeleted"

text \<open>
  \<open>getQuotaForUpdateTx\<close>: \<open>SELECT ... WHERE id = $1 AND status != $2 FOR UPDATE\<close>,
  the first row scanned; \<open>sql.ErrNoRows\<close> is "quota not found"; \<open>AvailableMB\<close> is
  computed after the scan.
\<close>

definition getQuotaForUpdateTx :: "TxState \<Rightarrow> string \<Rightarrow> error + Quota" where
  "getQuotaForUpdateTx tx quotaID =
     (if failed tx then Inl StorageError
      else case find (live quotaID) (quotas (work tx)) of
             None \<Rightarrow> Inl NotFound
           | Some quota \<Rightarrow>
               Inr (quota\<lparr>AvailableMB := TotalMB quota - UsedMB quota - AllocatedMB quota\<rparr>))"

definition validateAllocationRules :: "Quota \<Rightarrow> QuotaAllocateRequest \<Rightarrow> error option" where
  "validateAllocationRules parentQuota request =
     (if Type parentQuota = QuotaTypeOrganization \<and> alloc_Type request = QuotaTypeTeam then None
      else if Type parentQuota = QuotaTypeOrganization \<and> alloc_Type request = QuotaTypeOrganization
        then None
      else if Type parentQuota = QuotaTypeTeam \<and> alloc_Type request = QuotaTypeTeam then
        (case TeamID parentQuota of
           None \<Rightarrow> Some HierarchyViolation
         | Some t \<Rightarrow> if alloc_TargetID request \<noteq> t then Some HierarchyViolation else None)
      else Some HierarchyViolation)"

definition determineTeamID :: "Quota \<Rightarrow> QuotaAllocateRequest \<Rightarrow> string option" where
  "determineTeamID parentQuota request =
     (if alloc_Type request = QuotaTypeTeam then Some (alloc_TargetID request)
      else TeamID parentQuota)"

definition createAuditLogTx ::
  "string \<Rightarrow> string \<Rightarrow> string \<Rightarrow> string \<Rightarrow> string option \<Rightarrow> (string \<times> json) list \<Rightarrow> nat \<Rightarrow>
   TxState \<Rightarrow> error option \<times> TxState" where
  "createAuditLogTx uuid quotaID actionType actorUserID targetUserID details now tx =
     Exec (insert_audit
       \<lparr>audit_ID = ''audit_'' @ uuid, audit_QuotaID = quotaID, audit_ActionType = actionType,
        audit_ActorUserID = actorUserID, audit_TargetUserID = targetUserID,
        audit_Details = details, audit_CreatedAt = now\<rparr>) tx"

text \<open>
  Every caller treats the audit write alike:
  \<open>if err != nil { qs.logger.WithError(err).Warn("Failed to create audit log") }\<close>
  and goes on to return nil.
\<close>

definition warn_audit :: "error option \<times> TxState \<Rightarrow> TxState" where
  "warn_audit r =
     (case r of
        (None, tx) \<Rightarrow> tx
      | (Some e, tx) \<Rightarrow> tx\<lparr>warnings := warnings tx @ [''Failed to create audit log'']\<rparr>)"

text \<open>The loop over \<open>request.AdminUserIDs\<close>: a failed grant is logged, nothing else.\<close>

fun grant_admins :: "AuthClient \<Rightarrow> UserInfo \<Rightarrow> string \<Rightarrow> string list \<Rightarrow> TxState \<Rightarrow> TxState" where
  "grant_admins ac userInfo childQuotaID [] tx = tx"
| "grant_admins ac userInfo childQuotaID (adminUserID # rest) tx =
     (let tx1 = tx\<lparr>calls := calls tx @
            [GrantPermissionCall userInfo adminUserID childQuotaID [QuotaPermissionAdmin]]\<rparr>;
          tx2 = (case GrantPermission ac userInfo adminUserID childQuotaID [QuotaPermissionAdmin] of
                   None \<Rightarrow> tx1
                 | Some e \<Rightarrow> tx1\<lparr>warnings := warnings tx1 @ [''Failed to grant admin permission'']\<rparr>)
      in grant_admins ac userInfo childQuotaID rest tx2)"

text \<open>
  The permission check that opens five of the six functions: the request is sent, an
  error of the call is "failed to check permissions", a refusal "insufficient
  permissions".
\<close>

definition check_permission ::
  "AuthClient \<Rightarrow> UserInfo \<Rightarrow> string \<Rightarrow> string \<Rightarrow> Sys \<Rightarrow> error option \<times> Sys" where
  "check_permission ac userInfo resourceID permission sys =
     (let sys1 = sys\<lparr>sent := sent sys @ [CheckPermissionCall userInfo resourceID [permission]]\<rparr>
      in case CheckPermission ac userInfo resourceID [permission] of
           Inl e \<Rightarrow> (Some UpstreamError, sys1)
         | Inr hasPermission \<Rightarrow>
             if \<not> hasPermission then (Some PermissionDenied, sys1) else (None, sys1))"

subsection \<open>CreateQuota\<close>

text \<open>
  The struct literal of \<open>CreateQuota\<close>. It sets no \<open>AvailableMB\<close>: the field keeps
  Go's zero value.
\<close>

definition root_quota :: "UserInfo \<Rightarrow> QuotaCreateRequest \<Rightarrow> string \<Rightarrow> nat \<Rightarrow> Quota" where
  "root_quota userInfo request quotaID now =
     \<lparr>ID = quotaID, Name = create_Name request,
      Description = create_Description request, Type = create_Type request,
      TotalMB = create_TotalMB request, UsedMB = 0, AllocatedMB = 0,
      AvailableMB = 0, ParentQuotaID = None, Level = 0, Path = ''/'' @ quotaID,
      OwnerID = user_UserID userInfo,
      OrganizationID = user_OrganizationID userInfo,
      TeamID = create_TeamID request, Status = QuotaStatusActive,
      CreatedAt = now, UpdatedAt = now, DeletedAt = None\<rparr>"

definition CreateQuota_tx ::
  "UserInfo \<Rightarrow> QuotaCreateRequest \<Rightarrow> string \<Rightarrow> string \<Rightarrow> nat \<Rightarrow> TxState \<Rightarrow> (error + Quota) \<times> TxState" where
  "CreateQuota_tx userInfo request quotaID auditUuid now tx =
     (let quota = root_quota userInfo request quotaID now
      in case Exec (insert_quota quota) tx of
           (Some e, tx1) \<Rightarrow> (Inl StorageError, tx1)
         | (None, tx1) \<Rightarrow>
             (Inr quota,
              warn_audit (createAuditLogTx auditUuid quotaID ''create'' (user_UserID userInfo) None
                [(''name'', JString (Name quota)), (''type'', JString (Type quota)),
                 (''total_mb'', JNumber (TotalMB quota))] now tx1)))"

text \<open>The function makes no call to the authorization service.\<close>

definition CreateQuota ::
  "UserInfo \<Rightarrow> QuotaCreateRequest \<Rightarrow> string \<Rightarrow> string \<Rightarrow> nat \<Rightarrow> Sys \<Rightarrow> (error + Quota) \<times> Sys" where
  "CreateQuota userInfo request quotaUuid auditUuid now sys =
     (if sint (create_TotalMB request) \<le> 0 then (Inl ValidationError, sys)
      else if create_Type request \<noteq> QuotaTypeOrganization \<and> create_Type request \<noteq> QuotaTypeTeam
        then (Inl ValidationError, sys)
      else if create_Type request = QuotaTypeTeam \<and>
              (create_TeamID request = None \<or> create_TeamID request = Some [])
        then (Inl ValidationError, sys)
      else WithTransaction
             (CreateQuota_tx userInfo request (''quota_'' @ quotaUuid) auditUuid now) sys)"

subsection \<open>AllocateQuota\<close>

text \<open>The struct literal of \<open>AllocateQuota\<close>; again no \<open>AvailableMB\<close>.\<close>

definition child_quota ::
  "Quota \<Rightarrow> string \<Rightarrow> QuotaAllocateRequest \<Rightarrow> string \<Rightarrow> nat \<Rightarrow> Quota" where
  "child_quota parentQuota parentQuotaID request childQuotaID now =
     \<lparr>ID = childQuotaID, Name = alloc_Name request,
      Description = alloc_Description request, Type = alloc_Type request,
      TotalMB = alloc_AllocateMB request, UsedMB = 0, AllocatedMB = 0,
      AvailableMB = 0, ParentQuotaID = Some parentQuotaID,
      Level = Level parentQuota + 1,
      Path = Path parentQuota @ ''/'' @ childQuotaID,
      OwnerID = OwnerID parentQuota,
      OrganizationID = OrganizationID parentQuota,
      TeamID = determineTeamID parentQuota request,
      Status = QuotaStatusActive,
      CreatedAt = now, UpdatedAt = now, DeletedAt = None\<rparr>"

definition AllocateQuota_tx ::
  "AuthClient \<Rightarrow> UserInfo \<Rightarrow> string \<Rightarrow> QuotaAllocateRequest \<Rightarrow> string \<Rightarrow> string \<Rightarrow> nat \<Rightarrow>
   TxState \<Rightarrow> (error + Quota) \<times> TxState" where
  "AllocateQuota_tx ac userInfo parentQuotaID request childQuotaID auditUuid now tx =
     (case getQuotaForUpdateTx tx parentQuotaID of
        Inl e \<Rightarrow> (Inl e, tx)
      | Inr parentQuota \<Rightarrow>
          if sint (AvailableMB parentQuota) < sint (alloc_AllocateMB request)
          then (Inl InsufficientCapacity, tx)
          else
            (case validateAllocationRules parentQuota request of
               Some e \<Rightarrow> (Inl e, tx)
             | None \<Rightarrow>
                 (let childQuota = child_quota parentQuota parentQuotaID request childQuotaID now
                  in case Exec (insert_quota childQuota) tx of
                       (Some e, tx1) \<Rightarrow> (Inl StorageError, tx1)
                     | (None, tx1) \<Rightarrow>
                         (case Exec (update_quota parentQuotaID
                                      (set_allocated_plus (alloc_AllocateMB request) now)) tx1 of
                            (Some e, tx2) \<Rightarrow> (Inl StorageError, tx2)
                          | (None, tx2) \<Rightarrow>
                              (let tx3 = tx2\<lparr>calls := calls tx2 @
                                     [CreateResourceCall userInfo childQuotaID ''quota''
                                        (Name childQuota) (Description childQuota)]\<rparr>
                               in case CreateResource ac userInfo childQuotaID ''quota''
                                         (Name childQuota) (Description childQuota) of
                                    Some e \<Rightarrow> (Inl UpstreamError, tx3)
                                  | None \<Rightarrow>
                                      (let tx4 = grant_admins ac userInfo childQuotaID
                                                   (alloc_AdminUserIDs request) tx3
                                       in (Inr childQuota,
                                           warn_audit (createAuditLogTx auditUuid childQuotaID
                                             ''allocate'' (user_UserID userInfo) None
                                             [(''parent_quota_id'', JString parentQuotaID),
                                              (''allocated_mb'', JNumber (alloc_AllocateMB request)),
                                              (''name'', JString (Name childQuota)),
                                              (''type'', JString (Type childQuota))]
                                             now tx4))))))))"

definition AllocateQuota ::
  "AuthClient \<Rightarrow> UserInfo \<Rightarrow> string \<Rightarrow> QuotaAllocateRequest \<Rightarrow> string \<Rightarrow> string \<Rightarrow> nat \<Rightarrow>
   Sys \<Rightarrow> (error + Quota) \<times> Sys" where
  "AllocateQuota ac userInfo parentQuotaID request quotaUuid auditUuid now sys =
     (case check_permission ac userInfo parentQuotaID QuotaPermissionAdmin sys of
        (Some e, sys1) \<Rightarrow> (Inl e, sys1)
      | (None, sys1) \<Rightarrow>
          if sint (alloc_AllocateMB request) \<le> 0 then (Inl ValidationError, sys1)
          else WithTransaction
                 (AllocateQuota_tx ac userInfo parentQuotaID request (''quota_'' @ quotaUuid)
                    auditUuid now) sys1)"

subsection \<open>ReleaseQuota\<close>

definition ReleaseQuota_tx ::
  "UserInfo \<Rightarrow> string \<Rightarrow> string \<Rightarrow> nat \<Rightarrow> TxState \<Rightarrow> (error + unit) \<times> TxState" where
  "ReleaseQuota_tx userInfo quotaID auditUuid now tx =
     (case getQuotaForUpdateTx tx quotaID of
        Inl e \<Rightarrow> (Inl e, tx)
      | Inr quota \<Rightarrow>
          if 0 < sint (UsedMB quota) \<or> 0 < sint (AllocatedMB quota) then (Inl BusyResource, tx)
          else
            (case (case ParentQuotaID quota of
                     None \<Rightarrow> (None, tx)
                   | Some p \<Rightarrow> Exec (update_quota p (set_allocated_minus (TotalMB quota) now)) tx) of
               (Some e, tx1) \<Rightarrow> (Inl StorageError, tx1)
             | (None, tx1) \<Rightarrow>
                 (case Exec (update_quota quotaID (set_deleted now)) tx1 of
                    (Some e, tx2) \<Rightarrow> (Inl StorageError, tx2)
                  | (None, tx2) \<Rightarrow>
                      (Inr (),
                       warn_audit (createAuditLogTx auditUuid quotaID ''release''
                         (user_UserID userInfo) None
                         [(''parent_quota_id'',
                             (case ParentQuotaID quota of None \<Rightarrow> JNull | Some p \<Rightarrow> JString p)),
                          (''returned_mb'', JNumber (TotalMB quota))] now tx2)))))"

definition ReleaseQuota ::
  "AuthClient \<Rightarrow> UserInfo \<Rightarrow> string \<Rightarrow> string \<Rightarrow> nat \<Rightarrow> Sys \<Rightarrow> (error + unit) \<times> Sys" where
  "ReleaseQuota ac userInfo quotaID auditUuid now sys =
     (case check_permission ac userInfo quotaID QuotaPermissionAdmin sys of
        (Some e, sys1) \<Rightarrow> (Inl e, sys1)
      | (None, sys1) \<Rightarrow> WithTransaction (ReleaseQuota_tx userInfo quotaID auditUuid now) sys1)"

subsection \<open>AllocateUsage and DeallocateUsage\<close>

text \<open>The row that \<open>AllocateUsage\<close> and \<open>DeallocateUsage\<close> write to the usage journal.\<close>

definition usage_entry ::
  "string \<Rightarrow> string \<Rightarrow> UserInfo \<Rightarrow> QuotaUsageRequest \<Rightarrow> string \<Rightarrow> nat \<Rightarrow> QuotaUsage" where
  "usage_entry usageUuid quotaID userInfo request operation now =
     \<lparr>usage_ID = ''usage_'' @ usageUuid, usage_QuotaID = quotaID,
      usage_UserID = user_UserID userInfo, usage_ResourceID = req_ResourceID request,
      usage_UsageMB = req_UsageMB request, usage_Operation = operation,
      usage_Reason = req_Reason request, usage_CreatedAt = now\<rparr>"

definition usage_details :: "QuotaUsageRequest \<Rightarrow> (string \<times> json) list" where
  "usage_details request =
     [(''resource_id'', JString (req_ResourceID request)),
      (''usage_mb'', JNumber (req_UsageMB request)),
      (''reason'', JString (req_Reason request))]"

definition AllocateUsage_tx ::
  "UserInfo \<Rightarrow> string \<Rightarrow> QuotaUsageRequest \<Rightarrow> string \<Rightarrow> string \<Rightarrow> nat \<Rightarrow> TxState \<Rightarrow>
   (error + unit) \<times> TxState" where
  "AllocateUsage_tx userInfo quotaID request usageUuid auditUuid now tx =
     (case getQuotaForUpdateTx tx quotaID of
        Inl e \<Rightarrow> (Inl e, tx)
      | Inr quota \<Rightarrow>
          (let availableForUsage = TotalMB quota - UsedMB quota - AllocatedMB quota
           in if sint availableForUsage < sint (req_UsageMB request)
              then (Inl InsufficientCapacity, tx)
              else
                (case Exec (update_quota quotaID (set_used_plus (req_UsageMB request) now)) tx of
                   (Some e, tx1) \<Rightarrow> (Inl StorageError, tx1)
                 | (None, tx1) \<Rightarrow>
                     (case Exec (insert_usage (usage_entry usageUuid quotaID userInfo request
                                   OperationAllocate now)) tx1 of
                        (Some e, tx2) \<Rightarrow> (Inl StorageError, tx2)
                      | (None, tx2) \<Rightarrow>
                          (Inr (),
                           warn_audit (createAuditLogTx auditUuid quotaID ''usage_allocate''
                             (user_UserID userInfo) None (usage_details request) now tx2))))))"

definition AllocateUsage ::
  "AuthClient \<Rightarrow> UserInfo \<Rightarrow> string \<Rightarrow> QuotaUsageRequest \<Rightarrow> string \<Rightarrow> string \<Rightarrow> nat \<Rightarrow> Sys \<Rightarrow>
   (error + unit) \<times> Sys" where
  "AllocateUsage ac userInfo quotaID request usageUuid auditUuid now sys =
     (case check_permission ac userInfo quotaID QuotaPermissionRead sys of
        (Some e, sys1) \<Rightarrow> (Inl e, sys1)
      | (None, sys1) \<Rightarrow>
          WithTransaction (AllocateUsage_tx userInfo quotaID request usageUuid auditUuid now) sys1)"

definition DeallocateUsage_tx ::
  "UserInfo \<Rightarrow> string \<Rightarrow> QuotaUsageRequest \<Rightarrow> string \<Rightarrow> string \<Rightarrow> nat \<Rightarrow> TxState \<Rightarrow>
   (error + unit) \<times> TxState" where
  "DeallocateUsage_tx userInfo quotaID request usageUuid auditUuid now tx =
     (case getQuotaForUpdateTx tx quotaID of
        Inl e \<Rightarrow> (Inl e, tx)
      | Inr quota \<Rightarrow>
          if sint (UsedMB quota) < sint (req_UsageMB request) then (Inl ValidationError, tx)
          else
            (case Exec (update_quota quotaID (set_used_minus (req_UsageMB request) now)) tx of
               (Some e, tx1) \<Rightarrow> (Inl StorageError, tx1)
             | (None, tx1) \<Rightarrow>
                 (case Exec (insert_usage (usage_entry usageUuid quotaID userInfo request
                               OperationDeallocate now)) tx1 of
                    (Some e, tx2) \<Rightarrow> (Inl StorageError, tx2)
                  | (None, tx2) \<Rightarrow>
                      (Inr (),
                       warn_audit (createAuditLogTx auditUuid quotaID ''usage_deallocate''
                         (user_UserID userInfo) None (usage_details request) now tx2)))))"

definition DeallocateUsage ::
  "AuthClient \<Rightarrow> UserInfo \<Rightarrow> string \<Rightarrow> QuotaUsageRequest \<Rightarrow> string \<Rightarrow> string \<Rightarrow> nat \<Rightarrow> Sys \<Rightarrow>
   (error + unit) \<times> Sys" where
  "DeallocateUsage ac userInfo quotaID request usageUuid auditUuid now sys =
     (case check_permission ac userInfo quotaID QuotaPermissionRead sys of
        (Some e, sys1) \<Rightarrow> (Inl e, sys1)
      | (None, sys1) \<Rightarrow>
          WithTransaction (DeallocateUsage_tx userInfo quotaID request usageUuid auditUuid now) sys1)"

subsection \<open>GetQuota\<close>

text \<open>The read outside a transaction: the same WHERE clause, no lock.\<close>

definition GetQuota :: "AuthClient \<Rightarrow> UserInfo \<Rightarrow> string \<Rightarrow> Sys \<Rightarrow> (error + Quota) \<times> Sys" where
  "GetQuota ac userInfo quotaID sys =
     (case check_permission ac userInfo quotaID QuotaPermissionRead sys of
        (Some e, sys1) \<Rightarrow> (Inl e, sys1)
      | (None, sys1) \<Rightarrow>
          (case find (live quotaID) (quotas (store sys1)) of
             None \<Rightarrow> (Inl NotFound, sys1)
           | Some quota \<Rightarrow>
               (Inr (quota\<lparr>AvailableMB := TotalMB quota - UsedMB quota - AllocatedMB quota\<rparr>),
                sys1)))"

section \<open>The ledger's invariants\<close>

text \<open>\<open>SELECT * FROM quotas WHERE id = i\<close>: the row of a node, whatever its status.\<close>

definition quota_row :: "DB \<Rightarrow> string \<Rightarrow> Quota option" where
  "quota_row db i = find (\<lambda>r. ID r = i) (quotas db)"

text \<open>The sum of \<open>total\<close> over the direct children of node \<open>p\<close> that are not deleted.\<close>

definition children_total :: "Quota list \<Rightarrow> string \<Rightarrow> int" where
  "children_total rs p =
     sum_list (map (\<lambda>c. sint (TotalMB c))
       (filter (\<lambda>c. ParentQuotaID c = Some p \<and> Status c \<noteq> QuotaStatusDeleted) rs))"

text \<open>
  The constraints of the schema on table \<open>quotas\<close> (primary key, CHECKs, foreign key)
  and the second invariant of the specification: a node's \<open>allocated\<close> is the sum of
  \<open>total\<close> over its direct children that are not deleted.
\<close>

definition pk_ok :: "Quota list \<Rightarrow> bool" where
  "pk_ok rs \<longleftrightarrow> distinct (map ID rs)"

definition checks_ok :: "Quota list \<Rightarrow> bool" where
  "checks_ok rs \<longleftrightarrow> list_all quotas_check rs"

definition fk_ok :: "Quota list \<Rightarrow> bool" where
  "fk_ok rs \<longleftrightarrow>
     list_all (\<lambda>r. case ParentQuotaID r of None \<Rightarrow> True | Some p \<Rightarrow> p \<in> set (map ID rs)) rs"

definition alloc_ok :: "Quota list \<Rightarrow> bool" where
  "alloc_ok rs \<longleftrightarrow> list_all (\<lambda>r. sint (AllocatedMB r) = children_total rs (ID r)) rs"

definition ledger_ok :: "DB \<Rightarrow> bool" where
  "ledger_ok db \<longleftrightarrow>
     pk_ok (quotas db) \<and> checks_ok (quotas db) \<and> fk_ok (quotas db) \<and> alloc_ok (quotas db)"

text \<open>
  The states of the system: the empty database of a fresh schema, and whatever a call of
  one of the six service functions leaves, with any arguments, any answers of the
  authorization service, any generated identifiers and any clock reading.
\<close>

definition empty_db :: DB where
  "empty_db = \<lparr>quotas = [], quota_usage = [], quota_audit_logs = []\<rparr>"

inductive reachable :: "Sys \<Rightarrow> bool" where
  initial: "reachable \<lparr>store = empty_db, sent = [], logged = []\<rparr>"
| create: "reachable s \<Longrightarrow> s' = snd (CreateQuota userInfo creq quotaUuid auditUuid now s) \<Longrightarrow>
     reachable s'"
| allocate: "reachable s \<Longrightarrow>
     s' = snd (AllocateQuota ac userInfo parentQuotaID areq quotaUuid auditUuid now s) \<Longrightarrow>
     reachable s'"
| release: "reachable s \<Longrightarrow> s' = snd (ReleaseQuota ac userInfo quotaID auditUuid now s) \<Longrightarrow>
     reachable s'"
| allocate_usage: "reachable s \<Longrightarrow>
     s' = snd (AllocateUsage ac userInfo quotaID ureq usageUuid auditUuid now s) \<Longrightarrow>
     reachable s'"
| deallocate_usage: "reachable s \<Longrightarrow>
     s' = snd (DeallocateUsage ac userInfo quotaID ureq usageUuid auditUuid now s) \<Longrightarrow>
     reachable s'"
| get: "reachable s \<Longrightarrow> s' = snd (GetQuota ac userInfo quotaID s) \<Longrightarrow> reachable s'"

section \<open>Auxiliary definitions\<close>

text \<open>The transaction state that \<open>db.Begin\<close> hands to the closure.\<close>

definition fresh_tx :: "Sys \<Rightarrow> TxState" where
  "fresh_tx sys = \<lparr>work = store sys, failed = False, calls = sent sys, warnings = logged sys\<rparr>"

text \<open>The row that \<open>createAuditLogTx\<close> writes when no target user is given.\<close>

definition audit_entry ::
  "string \<Rightarrow> string \<Rightarrow> string \<Rightarrow> string \<Rightarrow> (string \<times> json) list \<Rightarrow> nat \<Rightarrow> QuotaAuditLog" where
  "audit_entry uuid quotaID actionType actor details now =
     \<lparr>audit_ID = ''audit_'' @ uuid, audit_QuotaID = quotaID, audit_ActionType = actionType,
      audit_ActorUserID = actor, audit_TargetUserID = None,
      audit_Details = details, audit_CreatedAt = now\<rparr>"

text \<open>What the loop over the administrators sends and logs.\<close>

definition grant_calls :: "UserInfo \<Rightarrow> string \<Rightarrow> string list \<Rightarrow> auth_call list" where
  "grant_calls userInfo childQuotaID admins =
     map (\<lambda>a. GrantPermissionCall userInfo a childQuotaID [QuotaPermissionAdmin]) admins"

definition grant_warnings :: "AuthClient \<Rightarrow> UserInfo \<Rightarrow> string \<Rightarrow> string list \<Rightarrow> string list" where
  "grant_warnings ac userInfo childQuotaID admins =
     concat (map (\<lambda>a. case GrantPermission ac userInfo a childQuotaID [QuotaPermissionAdmin] of
                         None \<Rightarrow> [] | Some e \<Rightarrow> [''Failed to grant admin permission'']) admins)"

text \<open>The system after the permission check has been sent.\<close>

definition asked :: "UserInfo \<Rightarrow> string \<Rightarrow> string \<Rightarrow> Sys \<Rightarrow> Sys" where
  "asked u i perm s = \<lparr>store = store s, sent = sent s @ [CheckPermissionCall u i [perm]], logged = logged s\<rparr>"

text \<open>
  What \<open>WithTransaction\<close> makes of the closure's result: rollback on an error or in a
  failed transaction, commit otherwise.
\<close>

definition commit :: "Sys \<Rightarrow> (error + 'a) \<times> TxState \<Rightarrow> (error + 'a) \<times> Sys" where
  "commit s rt =
     (case rt of (r, tx) \<Rightarrow>
        (r, \<lparr>store = (if isl r \<or> failed tx then store s else work tx),
             sent = calls tx, logged = warnings tx\<rparr>))"

section \<open>Example values\<close>

definition ex_user :: UserInfo where
  "ex_user = \<lparr>user_UserID = ''alice'', user_OrganizationID = ''org1'', user_TeamIDs = []\<rparr>"

definition ex_allow :: AuthClient where
  "ex_allow = \<lparr>CheckPermission = (\<lambda>u r ps. Inr True), CreateResource = (\<lambda>u r k n d. None),
     GrantPermission = (\<lambda>u t r ps. None)\<rparr>"

definition ex_team :: Quota where
  "ex_team = \<lparr>ID = ''quota_t'', Name = ''team one'', Description = [], Type = ''team'',
     TotalMB = 5000, UsedMB = 0, AllocatedMB = 0, AvailableMB = 5000, ParentQuotaID = None,
     Level = 0, Path = ''/quota_t'', OwnerID = ''alice'', OrganizationID = ''org1'',
     TeamID = Some ''T1'', Status = ''active'', CreatedAt = 1, UpdatedAt = 1, DeletedAt = None\<rparr>"

definition ex_team_sys :: Sys where
  "ex_team_sys = \<lparr>store = \<lparr>quotas = [ex_team], quota_usage = [], quota_audit_logs = []\<rparr>,
     sent = [], logged = []\<rparr>"

definition ex_alloc_T2 :: QuotaAllocateRequest where
  "ex_alloc_T2 = \<lparr>alloc_Name = ''sub'', alloc_Description = [], alloc_AllocateMB = 700,
     alloc_Type = ''team'', alloc_TargetID = ''T2'', alloc_AdminUserIDs = [''bob'']\<rparr>"

definition ex_empty_sys :: Sys where
  "ex_empty_sys = \<lparr>store = empty_db, sent = [], logged = []\<rparr>"

definition ex_create :: QuotaCreateRequest where
  "ex_create = \<lparr>create_Name = ''root'', create_Description = [], create_Type = ''organization'',
     create_TotalMB = 10000, create_TeamID = None\<rparr>"

definition ex_root :: Quota where
  "ex_root = \<lparr>ID = ''quota_r'', Name = ''root'', Description = [], Type = ''organization'',
     TotalMB = 10000, UsedMB = 0, AllocatedMB = 0, AvailableMB = 10000, ParentQuotaID = None,
     Level = 0, Path = ''/quota_r'', OwnerID = ''alice'', OrganizationID = ''org1'',
     TeamID = None, Status = ''active'', CreatedAt = 1, UpdatedAt = 1, DeletedAt = None\<rparr>"

definition ex_root_sys :: Sys where
  "ex_root_sys = \<lparr>store = \<lparr>quotas = [ex_root], quota_usage = [], quota_audit_logs = []\<rparr>,
     sent = [], logged = []\<rparr>"

definition ex_alloc :: QuotaAllocateRequest where
  "ex_alloc = \<lparr>alloc_Name = ''child'', alloc_Description = [], alloc_AllocateMB = 2000,
     alloc_Type = ''team'', alloc_TargetID = ''T1'', alloc_AdminUserIDs = [''bob'']\<rparr>"

definition ex_deny :: AuthClient where
  "ex_deny = \<lparr>CheckPermission = (\<lambda>u r ps. Inr False), CreateResource = (\<lambda>u r k n d. None),
     GrantPermission = (\<lambda>u t r ps. None)\<rparr>"


definition ex_usage :: QuotaUsageRequest where
  "ex_usage = \<lparr>req_ResourceID = ''res1'', req_UsageMB = 100, req_Reason = ''x''\<rparr>"

definition contrib :: "string \<Rightarrow> Quota \<Rightarrow> int" where
  "contrib p c = (if ParentQuotaID c = Some p \<and> Status c \<noteq> QuotaStatusDeleted
                  then sint (TotalMB c) else 0)"

definition keeps_shape :: "(Quota \<Rightarrow> Quota option) \<Rightarrow> bool" where
  "keeps_shape f \<longleftrightarrow> (\<forall>r r'. f r = Some r' \<longrightarrow>
      ID r' = ID r \<and> ParentQuotaID r' = ParentQuotaID r \<and> Status r' = Status r \<and>
      TotalMB r' = TotalMB r)"

definition create_details :: "QuotaCreateRequest \<Rightarrow> (string \<times> json) list" where
  "create_details req = [(''name'', JString (create_Name req)), (''type'', JString (create_Type req)),
                    (''total_mb'', JNumber (create_TotalMB req))]"

definition allocate_details :: "string \<Rightarrow> QuotaAllocateRequest \<Rightarrow> (string \<times> json) list" where
  "allocate_details pid req =
     [(''parent_quota_id'', JString pid), (''allocated_mb'', JNumber (alloc_AllocateMB req)),
      (''name'', JString (alloc_Name req)), (''type'', JString (alloc_Type req))]"

definition release_details :: "Quota \<Rightarrow> (string \<times> json) list" where
  "release_details q =
     [(''parent_quota_id'', (case ParentQuotaID q of None \<Rightarrow> JNull | Some p \<Rightarrow> JString p)),
      (''returned_mb'', JNumber (TotalMB q))]"

definition ex_sys1 :: Sys where
  "ex_sys1 = snd (CreateQuota ex_user ex_create ''r'' ''a1'' 1 \<lparr>store = empty_db, sent = [], logged = []\<rparr>)"

definition ex_sys2 :: Sys where
  "ex_sys2 = snd (AllocateQuota ex_allow ex_user ''quota_r'' ex_alloc ''c'' ''a2'' 2 ex_sys1)"

definition ex_audited_sys :: Sys where
  "ex_audited_sys = \<lparr>store = \<lparr>quotas = [ex_root], quota_usage = [],
       quota_audit_logs = [audit_entry ''a1'' ''quota_r'' ''create'' ''alice'' [] 1]\<rparr>,
     sent = [], logged = []\<rparr>"

definition used_less :: "int64 \<Rightarrow> nat \<Rightarrow> Quota \<Rightarrow> Quota" where
  "used_less n now r = generated (r\<lparr>UsedMB := UsedMB r - n, UpdatedAt := now\<rparr>)"

definition used_more :: "int64 \<Rightarrow> nat \<Rightarrow> Quota \<Rightarrow> Quota" where
  "used_more n now r = generated (r\<lparr>UsedMB := UsedMB r + n, UpdatedAt := now\<rparr>)"

definition returned :: "int64 \<Rightarrow> nat \<Rightarrow> Quota \<Rightarrow> Quota" where
  "returned n now r = generated (r\<lparr>AllocatedMB := AllocatedMB r - n, UpdatedAt := now\<rparr>)"

definition deleted_row :: "nat \<Rightarrow> Quota \<Rightarrow> Quota" where
  "deleted_row now r =
     generated (r\<lparr>Status := QuotaStatusDeleted, DeletedAt := Some now, UpdatedAt := now\<rparr>)"

definition allocated_more :: "int64 \<Rightarrow> nat \<Rightarrow> Quota \<Rightarrow> Quota" where
  "allocated_more n now r = generated (r\<lparr>AllocatedMB := AllocatedMB r + n, UpdatedAt := now\<rparr>)"

definition suspend :: "string \<Rightarrow> Quota \<Rightarrow> Quota" where
  "suspend j r =
     (if ID r = j \<and> Status r = QuotaStatusActive then r\<lparr>Status := QuotaStatusSuspended\<rparr> else r)"

definition suspend_db :: "string \<Rightarrow> DB \<Rightarrow> DB" where
  "suspend_db j db = db\<lparr>quotas := map (suspend j) (quotas db)\<rparr>"

definition suspend_sys :: "string \<Rightarrow> Sys \<Rightarrow> Sys" where
  "suspend_sys j s = s\<lparr>store := suspend_db j (store s)\<rparr>"

section \<open>Basic facts: words, the store's statements\<close>


lemma sint_plus_ok: "bigint_ok (sint (a::int64) + sint b) \<Longrightarrow> sint (a + b) = sint a + sint b"
  by (simp add: bigint_ok_def sint_word_ariths signed_take_bit_int_eq_self)

lemma sint_minus_ok: "bigint_ok (sint (a::int64) - sint b) \<Longrightarrow> sint (a - b) = sint a - sint b"
  by (simp add: bigint_ok_def sint_word_ariths signed_take_bit_int_eq_self)


lemma generated_simps [simp]:
  "ID (generated r) = ID r" "Type (generated r) = Type r"
  "TotalMB (generated r) = TotalMB r" "UsedMB (generated r) = UsedMB r"
  "AllocatedMB (generated r) = AllocatedMB r" "ParentQuotaID (generated r) = ParentQuotaID r"
  "Status (generated r) = Status r" "Level (generated r) = Level r"
  "DeletedAt (generated r) = DeletedAt r" "TeamID (generated r) = TeamID r"
  "AvailableMB (generated r) = TotalMB r - UsedMB r - AllocatedMB r"
  by (simp_all add: generated_def)

lemma quotas_check_generated [simp]: "quotas_check (generated r) = quotas_check r"
  by (simp add: quotas_check_def)

lemma insert_quota_Some:
  "insert_quota q db = Some db' \<longleftrightarrow>
     ID q \<notin> set (map ID (quotas db)) \<and> quotas_check q \<and>
     (case ParentQuotaID q of None \<Rightarrow> True | Some p \<Rightarrow> p \<in> set (map ID (quotas db))) \<and>
     db' = db\<lparr>quotas := quotas db @ [generated q]\<rparr>"
  by (auto simp: insert_quota_def split: option.splits)

lemma update_rows_eq:
  "update_rows i f rs =
     (if \<forall>r\<in>set rs. ID r = i \<longrightarrow> (\<exists>r'. f r = Some r' \<and> quotas_check r')
      then Some (map (\<lambda>r. if ID r = i then generated (the (f r)) else r) rs) else None)"
  by (induction rs) (auto split: option.splits)

lemma update_quota_Some:
  "update_quota i f db = Some db' \<longleftrightarrow>
     (\<forall>r\<in>set (quotas db). ID r = i \<longrightarrow> (\<exists>r'. f r = Some r' \<and> quotas_check r')) \<and>
     db' = db\<lparr>quotas := map (\<lambda>r. if ID r = i then generated (the (f r)) else r) (quotas db)\<rparr>"
  by (auto simp: update_quota_def update_rows_eq)

lemma insert_usage_Some:
  "insert_usage u db = Some db' \<longleftrightarrow>
     usage_ID u \<notin> set (map usage_ID (quota_usage db)) \<and>
     usage_QuotaID u \<in> set (map ID (quotas db)) \<and> 0 < sint (usage_UsageMB u) \<and>
     (usage_Operation u = ''allocate'' \<or> usage_Operation u = ''deallocate'') \<and>
     db' = db\<lparr>quota_usage := quota_usage db @ [u]\<rparr>"
  by (auto simp: insert_usage_def)

lemma insert_audit_Some:
  "insert_audit a db = Some db' \<longleftrightarrow>
     audit_ID a \<notin> set (map audit_ID (quota_audit_logs db)) \<and>
     audit_QuotaID a \<in> set (map ID (quotas db)) \<and>
     db' = db\<lparr>quota_audit_logs := quota_audit_logs db @ [a]\<rparr>"
  by (auto simp: insert_audit_def)

lemma Exec_None:
  "Exec stmt tx = (None, tx') \<longleftrightarrow>
     \<not> failed tx \<and> (\<exists>d. stmt (work tx) = Some d \<and> tx' = tx\<lparr>work := d\<rparr>)"
  by (auto simp: Exec_def split: option.splits)

lemma Exec_Some:
  "Exec stmt tx = (Some e, tx') \<Longrightarrow> e = StorageError \<and> failed tx' \<and> work tx' = work tx
      \<and> calls tx' = calls tx \<and> warnings tx' = warnings tx"
  by (auto simp: Exec_def split: option.splits if_splits)



lemma WithTransaction_eq:
  "WithTransaction fn sys =
     (case fn (fresh_tx sys) of
        (r, tx) \<Rightarrow> (r, \<lparr>store = (if isl r \<or> failed tx then store sys else work tx),
                       sent = calls tx, logged = warnings tx\<rparr>))"
  by (simp add: WithTransaction_def fresh_tx_def split: prod.splits sum.splits)

lemma check_permission_eq:
  "check_permission ac u i perm s =
     (case CheckPermission ac u i [perm] of
        Inl e \<Rightarrow> Some UpstreamError
      | Inr b \<Rightarrow> if b then None else Some PermissionDenied,
      \<lparr>store = store s, sent = sent s @ [CheckPermissionCall u i [perm]], logged = logged s\<rparr>)"
  by (simp add: check_permission_def Let_def split: sum.splits)

lemma grant_admins_eq:
  "grant_admins ac u cid admins tx =
     tx\<lparr>calls := calls tx @ grant_calls u cid admins,
        warnings := warnings tx @ grant_warnings ac u cid admins\<rparr>"
  by (induction admins arbitrary: tx)
     (simp_all add: grant_calls_def grant_warnings_def Let_def split: option.splits)

lemma validateAllocationRules_available [simp]:
  "validateAllocationRules (p\<lparr>AvailableMB := x\<rparr>) req = validateAllocationRules p req"
  by (simp add: validateAllocationRules_def)

lemma child_quota_available [simp]:
  "child_quota (p\<lparr>AvailableMB := x\<rparr>) pid req cid now = child_quota p pid req cid now"
  by (simp add: child_quota_def determineTeamID_def)

lemma root_quota_simps [simp]:
  "ID (root_quota u req qid now) = qid" "Name (root_quota u req qid now) = create_Name req"
  "Description (root_quota u req qid now) = create_Description req"
  "Type (root_quota u req qid now) = create_Type req"
  "TotalMB (root_quota u req qid now) = create_TotalMB req"
  "UsedMB (root_quota u req qid now) = 0" "AllocatedMB (root_quota u req qid now) = 0"
  "AvailableMB (root_quota u req qid now) = 0"
  "ParentQuotaID (root_quota u req qid now) = None" "Level (root_quota u req qid now) = 0"
  "Path (root_quota u req qid now) = ''/'' @ qid"
  "OwnerID (root_quota u req qid now) = user_UserID u"
  "OrganizationID (root_quota u req qid now) = user_OrganizationID u"
  "TeamID (root_quota u req qid now) = create_TeamID req"
  "Status (root_quota u req qid now) = QuotaStatusActive"
  "DeletedAt (root_quota u req qid now) = None"
  by (simp_all add: root_quota_def)

lemma child_quota_simps [simp]:
  "ID (child_quota p pid req cid now) = cid" "Name (child_quota p pid req cid now) = alloc_Name req"
  "Description (child_quota p pid req cid now) = alloc_Description req"
  "Type (child_quota p pid req cid now) = alloc_Type req"
  "TotalMB (child_quota p pid req cid now) = alloc_AllocateMB req"
  "UsedMB (child_quota p pid req cid now) = 0" "AllocatedMB (child_quota p pid req cid now) = 0"
  "AvailableMB (child_quota p pid req cid now) = 0"
  "ParentQuotaID (child_quota p pid req cid now) = Some pid"
  "Level (child_quota p pid req cid now) = Level p + 1"
  "Path (child_quota p pid req cid now) = Path p @ ''/'' @ cid"
  "OwnerID (child_quota p pid req cid now) = OwnerID p"
  "OrganizationID (child_quota p pid req cid now) = OrganizationID p"
  "TeamID (child_quota p pid req cid now) = determineTeamID p req"
  "Status (child_quota p pid req cid now) = QuotaStatusActive"
  "DeletedAt (child_quota p pid req cid now) = None"
  by (simp_all add: child_quota_def)

lemma CreateQuota_tx_eq:
  "\<not> failed tx \<Longrightarrow> CreateQuota_tx u req qid au now tx =
     (case insert_quota (root_quota u req qid now) (work tx) of
        None \<Rightarrow> (Inl StorageError, tx\<lparr>failed := True\<rparr>)
      | Some db1 \<Rightarrow>
          (case insert_audit (audit_entry au qid ''create'' (user_UserID u)
                   [(''name'', JString (create_Name req)), (''type'', JString (create_Type req)),
                    (''total_mb'', JNumber (create_TotalMB req))] now) db1 of
             None \<Rightarrow> (Inr (root_quota u req qid now),
                       tx\<lparr>work := db1, failed := True,
                          warnings := warnings tx @ [''Failed to create audit log'']\<rparr>)
           | Some db2 \<Rightarrow> (Inr (root_quota u req qid now), tx\<lparr>work := db2\<rparr>)))"
  by (simp add: CreateQuota_tx_def Exec_def Let_def warn_audit_def createAuditLogTx_def
      audit_entry_def split: option.splits)

lemma AllocateQuota_tx_eq:
  "\<not> failed tx \<Longrightarrow> AllocateQuota_tx ac u pid req cid au now tx =
     (case find (live pid) (quotas (work tx)) of
        None \<Rightarrow> (Inl NotFound, tx)
      | Some p \<Rightarrow>
          if sint (TotalMB p - UsedMB p - AllocatedMB p) < sint (alloc_AllocateMB req)
          then (Inl InsufficientCapacity, tx)
          else
            (case validateAllocationRules p req of
               Some e \<Rightarrow> (Inl e, tx)
             | None \<Rightarrow>
                (case insert_quota (child_quota p pid req cid now) (work tx) of
                   None \<Rightarrow> (Inl StorageError, tx\<lparr>failed := True\<rparr>)
                 | Some db1 \<Rightarrow>
                    (case update_quota pid (set_allocated_plus (alloc_AllocateMB req) now) db1 of
                       None \<Rightarrow> (Inl StorageError, tx\<lparr>work := db1, failed := True\<rparr>)
                     | Some db2 \<Rightarrow>
                        (case CreateResource ac u cid ''quota'' (alloc_Name req) (alloc_Description req) of
                           Some e \<Rightarrow> (Inl UpstreamError,
                              tx\<lparr>work := db2, calls := calls tx @
                                 [CreateResourceCall u cid ''quota'' (alloc_Name req) (alloc_Description req)]\<rparr>)
                         | None \<Rightarrow>
                            (case insert_audit (audit_entry au cid ''allocate'' (user_UserID u)
                                     [(''parent_quota_id'', JString pid),
                                      (''allocated_mb'', JNumber (alloc_AllocateMB req)),
                                      (''name'', JString (alloc_Name req)),
                                      (''type'', JString (alloc_Type req))] now) db2 of
                               None \<Rightarrow> (Inr (child_quota p pid req cid now),
                                  tx\<lparr>work := db2, failed := True,
                                     calls := calls tx @
                                       CreateResourceCall u cid ''quota'' (alloc_Name req) (alloc_Description req)
                                       # grant_calls u cid (alloc_AdminUserIDs req),
                                     warnings := warnings tx @ grant_warnings ac u cid (alloc_AdminUserIDs req)
                                       @ [''Failed to create audit log'']\<rparr>)
                             | Some db3 \<Rightarrow> (Inr (child_quota p pid req cid now),
                                  tx\<lparr>work := db3,
                                     calls := calls tx @
                                       CreateResourceCall u cid ''quota'' (alloc_Name req) (alloc_Description req)
                                       # grant_calls u cid (alloc_AdminUserIDs req),
                                     warnings := warnings tx @ grant_warnings ac u cid (alloc_AdminUserIDs req)\<rparr>)))))))"
  by (simp add: AllocateQuota_tx_def getQuotaForUpdateTx_def Exec_def Let_def warn_audit_def
      createAuditLogTx_def audit_entry_def grant_admins_eq split: option.splits)


lemma ReleaseQuota_tx_eq:
  "\<not> failed tx \<Longrightarrow> ReleaseQuota_tx u i au now tx =
     (case find (live i) (quotas (work tx)) of
        None \<Rightarrow> (Inl NotFound, tx)
      | Some q \<Rightarrow>
          if 0 < sint (UsedMB q) \<or> 0 < sint (AllocatedMB q) then (Inl BusyResource, tx)
          else
            (case (case ParentQuotaID q of
                     None \<Rightarrow> Some (work tx)
                   | Some p \<Rightarrow> update_quota p (set_allocated_minus (TotalMB q) now) (work tx)) of
               None \<Rightarrow> (Inl StorageError, tx\<lparr>failed := True\<rparr>)
             | Some db1 \<Rightarrow>
                 (case update_quota i (set_deleted now) db1 of
                    None \<Rightarrow> (Inl StorageError, tx\<lparr>work := db1, failed := True\<rparr>)
                  | Some db2 \<Rightarrow>
                      (case insert_audit (audit_entry au i ''release'' (user_UserID u)
                               [(''parent_quota_id'',
                                   (case ParentQuotaID q of None \<Rightarrow> JNull | Some p \<Rightarrow> JString p)),
                                (''returned_mb'', JNumber (TotalMB q))] now) db2 of
                         None \<Rightarrow> (Inr (), tx\<lparr>work := db2, failed := True,
                                     warnings := warnings tx @ [''Failed to create audit log'']\<rparr>)
                       | Some db3 \<Rightarrow> (Inr (), tx\<lparr>work := db3\<rparr>)))))"
  by (simp add: ReleaseQuota_tx_def getQuotaForUpdateTx_def Exec_def Let_def warn_audit_def
      createAuditLogTx_def audit_entry_def split: option.splits)

lemma AllocateUsage_tx_eq:
  "\<not> failed tx \<Longrightarrow> AllocateUsage_tx u i req uu au now tx =
     (case find (live i) (quotas (work tx)) of
        None \<Rightarrow> (Inl NotFound, tx)
      | Some q \<Rightarrow>
          if sint (TotalMB q - UsedMB q - AllocatedMB q) < sint (req_UsageMB req)
          then (Inl InsufficientCapacity, tx)
          else
            (case update_quota i (set_used_plus (req_UsageMB req) now) (work tx) of
               None \<Rightarrow> (Inl StorageError, tx\<lparr>failed := True\<rparr>)
             | Some db1 \<Rightarrow>
                 (case insert_usage (usage_entry uu i u req OperationAllocate now) db1 of
                    None \<Rightarrow> (Inl StorageError, tx\<lparr>work := db1, failed := True\<rparr>)
                  | Some db2 \<Rightarrow>
                      (case insert_audit (audit_entry au i ''usage_allocate'' (user_UserID u)
                                            (usage_details req) now) db2 of
                         None \<Rightarrow> (Inr (), tx\<lparr>work := db2, failed := True,
                                     warnings := warnings tx @ [''Failed to create audit log'']\<rparr>)
                       | Some db3 \<Rightarrow> (Inr (), tx\<lparr>work := db3\<rparr>)))))"
  by (simp add: AllocateUsage_tx_def getQuotaForUpdateTx_def Exec_def Let_def warn_audit_def
      createAuditLogTx_def audit_entry_def split: option.splits)

lemma DeallocateUsage_tx_eq:
  "\<not> failed tx \<Longrightarrow> DeallocateUsage_tx u i req uu au now tx =
     (case find (live i) (quotas (work tx)) of
        None \<Rightarrow> (Inl NotFound, tx)
      | Some q \<Rightarrow>
          if sint (UsedMB q) < sint (req_UsageMB req) then (Inl ValidationError, tx)
          else
            (case update_quota i (set_used_minus (req_UsageMB req) now) (work tx) of
               None \<Rightarrow> (Inl StorageError, tx\<lparr>failed := True\<rparr>)
             | Some db1 \<Rightarrow>
                 (case insert_usage (usage_entry uu i u req OperationDeallocate now) db1 of
                    None \<Rightarrow> (Inl StorageError, tx\<lparr>work := db1, failed := True\<rparr>)
                  | Some db2 \<Rightarrow>
                      (case insert_audit (audit_entry au i ''usage_deallocate'' (user_UserID u)
                                            (usage_details req) now) db2 of
                         None \<Rightarrow> (Inr (), tx\<lparr>work := db2, failed := True,
                                     warnings := warnings tx @ [''Failed to create audit log'']\<rparr>)
                       | Some db3 \<Rightarrow> (Inr (), tx\<lparr>work := db3\<rparr>)))))"
  by (simp add: DeallocateUsage_tx_def getQuotaForUpdateTx_def Exec_def Let_def warn_audit_def
      createAuditLogTx_def audit_entry_def split: option.splits)

lemma fresh_tx_simps [simp]:
  "work (fresh_tx s) = store s" "failed (fresh_tx s) = False"
  "calls (fresh_tx s) = sent s" "warnings (fresh_tx s) = logged s"
  by (simp_all add: fresh_tx_def)

lemma asked_simps [simp]:
  "store (asked u i perm s) = store s" "sent (asked u i perm s) = sent s @ [CheckPermissionCall u i [perm]]"
  "logged (asked u i perm s) = logged s"
  by (simp_all add: asked_def)

lemma WithTransaction_commit: "WithTransaction fn s = commit s (fn (fresh_tx s))"
  by (simp add: WithTransaction_eq commit_def)

lemma commit_simps [simp]:
  "commit s (Inl e, tx) = (Inl e, \<lparr>store = store s, sent = calls tx, logged = warnings tx\<rparr>)"
  "commit s (Inr v, tx) =
     (Inr v, \<lparr>store = (if failed tx then store s else work tx), sent = calls tx, logged = warnings tx\<rparr>)"
  by (simp_all add: commit_def)

lemmas commit_distrib =
  option.case_distrib [where h = "commit s" for s] if_distrib [where f = "commit s" for s]

lemma CreateQuota_eq:
  "CreateQuota u req qu au now s =
     (if sint (create_TotalMB req) \<le> 0 then (Inl ValidationError, s)
      else if create_Type req \<noteq> QuotaTypeOrganization \<and> create_Type req \<noteq> QuotaTypeTeam
        then (Inl ValidationError, s)
      else if create_Type req = QuotaTypeTeam \<and> (create_TeamID req = None \<or> create_TeamID req = Some [])
        then (Inl ValidationError, s)
      else
        (case insert_quota (root_quota u req (''quota_'' @ qu) now) (store s) of
           None \<Rightarrow> (Inl StorageError, s)
         | Some db1 \<Rightarrow>
            (case insert_audit (audit_entry au (''quota_'' @ qu) ''create'' (user_UserID u)
                   [(''name'', JString (create_Name req)), (''type'', JString (create_Type req)),
                    (''total_mb'', JNumber (create_TotalMB req))] now) db1 of
               None \<Rightarrow> (Inr (root_quota u req (''quota_'' @ qu) now),
                  \<lparr>store = store s, sent = sent s,
                   logged = logged s @ [''Failed to create audit log'']\<rparr>)
             | Some db2 \<Rightarrow> (Inr (root_quota u req (''quota_'' @ qu) now),
                  \<lparr>store = db2, sent = sent s, logged = logged s\<rparr>))))"
  by (simp add: CreateQuota_def WithTransaction_eq CreateQuota_tx_eq split: option.splits)

lemma AllocateUsage_eq:
  "AllocateUsage ac u i req uu au now s =
     (case CheckPermission ac u i [QuotaPermissionRead] of
        Inl e \<Rightarrow> (Inl UpstreamError, asked u i QuotaPermissionRead s)
      | Inr b \<Rightarrow>
          if \<not> b then (Inl PermissionDenied, asked u i QuotaPermissionRead s)
          else
           (case find (live i) (quotas (store s)) of
              None \<Rightarrow> (Inl NotFound, asked u i QuotaPermissionRead s)
            | Some q \<Rightarrow>
                if sint (TotalMB q - UsedMB q - AllocatedMB q) < sint (req_UsageMB req)
                then (Inl InsufficientCapacity, asked u i QuotaPermissionRead s)
                else
                  (case update_quota i (set_used_plus (req_UsageMB req) now) (store s) of
                     None \<Rightarrow> (Inl StorageError, asked u i QuotaPermissionRead s)
                   | Some db1 \<Rightarrow>
                       (case insert_usage (usage_entry uu i u req OperationAllocate now) db1 of
                          None \<Rightarrow> (Inl StorageError, asked u i QuotaPermissionRead s)
                        | Some db2 \<Rightarrow>
                            (case insert_audit (audit_entry au i ''usage_allocate'' (user_UserID u)
                                                  (usage_details req) now) db2 of
                               None \<Rightarrow> (Inr (), (asked u i QuotaPermissionRead s)
                                   \<lparr>logged := logged s @ [''Failed to create audit log'']\<rparr>)
                             | Some db3 \<Rightarrow> (Inr (), (asked u i QuotaPermissionRead s)\<lparr>store := db3\<rparr>))))))"
proof (cases "CheckPermission ac u i [QuotaPermissionRead]")
  case (Inl e)
  then show ?thesis
    by (simp add: AllocateUsage_def check_permission_eq asked_def)
next
  case (Inr b)
  then show ?thesis
    by (cases b)
       (simp_all add: AllocateUsage_def check_permission_eq WithTransaction_commit AllocateUsage_tx_eq
          commit_distrib asked_def cong: option.case_cong if_cong)
qed


lemma DeallocateUsage_eq:
  "DeallocateUsage ac u i req uu au now s =
     (case CheckPermission ac u i [QuotaPermissionRead] of
        Inl e \<Rightarrow> (Inl UpstreamError, asked u i QuotaPermissionRead s)
      | Inr b \<Rightarrow>
          if \<not> b then (Inl PermissionDenied, asked u i QuotaPermissionRead s)
          else
           (case find (live i) (quotas (store s)) of
              None \<Rightarrow> (Inl NotFound, asked u i QuotaPermissionRead s)
            | Some q \<Rightarrow>
                if sint (UsedMB q) < sint (req_UsageMB req)
                then (Inl ValidationError, asked u i QuotaPermissionRead s)
                else
                  (case update_quota i (set_used_minus (req_UsageMB req) now) (store s) of
                     None \<Rightarrow> (Inl StorageError, asked u i QuotaPermissionRead s)
                   | Some db1 \<Rightarrow>
                       (case insert_usage (usage_entry uu i u req OperationDeallocate now) db1 of
                          None \<Rightarrow> (Inl StorageError, asked u i QuotaPermissionRead s)
                        | Some db2 \<Rightarrow>
                            (case insert_audit (audit_entry au i ''usage_deallocate'' (user_UserID u)
                                                  (usage_details req) now) db2 of
                               None \<Rightarrow> (Inr (), (asked u i QuotaPermissionRead s)
                                   \<lparr>logged := logged s @ [''Failed to create audit log'']\<rparr>)
                             | Some db3 \<Rightarrow> (Inr (), (asked u i QuotaPermissionRead s)\<lparr>store := db3\<rparr>))))))"
proof (cases "CheckPermission ac u i [QuotaPermissionRead]")
  case (Inl e)
  then show ?thesis
    by (simp add: DeallocateUsage_def check_permission_eq asked_def)
next
  case (Inr b)
  then show ?thesis
    by (cases b)
       (simp_all add: DeallocateUsage_def check_permission_eq WithTransaction_commit DeallocateUsage_tx_eq
          commit_distrib asked_def cong: option.case_cong if_cong)
qed

lemma ReleaseQuota_eq:
  "ReleaseQuota ac u i au now s =
     (case CheckPermission ac u i [QuotaPermissionAdmin] of
        Inl e \<Rightarrow> (Inl UpstreamError, asked u i QuotaPermissionAdmin s)
      | Inr b \<Rightarrow>
          if \<not> b then (Inl PermissionDenied, asked u i QuotaPermissionAdmin s)
          else
           (case find (live i) (quotas (store s)) of
              None \<Rightarrow> (Inl NotFound, asked u i QuotaPermissionAdmin s)
            | Some q \<Rightarrow>
                if 0 < sint (UsedMB q) \<or> 0 < sint (AllocatedMB q)
                then (Inl BusyResource, asked u i QuotaPermissionAdmin s)
                else
                  (case (case ParentQuotaID q of
                           None \<Rightarrow> Some (store s)
                         | Some p \<Rightarrow> update_quota p (set_allocated_minus (TotalMB q) now) (store s)) of
                     None \<Rightarrow> (Inl StorageError, asked u i QuotaPermissionAdmin s)
                   | Some db1 \<Rightarrow>
                       (case update_quota i (set_deleted now) db1 of
                          None \<Rightarrow> (Inl StorageError, asked u i QuotaPermissionAdmin s)
                        | Some db2 \<Rightarrow>
                            (case insert_audit (audit_entry au i ''release'' (user_UserID u)
                                     [(''parent_quota_id'',
                                         (case ParentQuotaID q of None \<Rightarrow> JNull | Some p \<Rightarrow> JString p)),
                                      (''returned_mb'', JNumber (TotalMB q))] now) db2 of
                               None \<Rightarrow> (Inr (), (asked u i QuotaPermissionAdmin s)
                                   \<lparr>logged := logged s @ [''Failed to create audit log'']\<rparr>)
                             | Some db3 \<Rightarrow> (Inr (), (asked u i QuotaPermissionAdmin s)\<lparr>store := db3\<rparr>))))))"
proof (cases "CheckPermission ac u i [QuotaPermissionAdmin]")
  case (Inl e)
  then show ?thesis
    by (simp add: ReleaseQuota_def check_permission_eq asked_def)
next
  case (Inr b)
  then show ?thesis
    by (cases b)
       (simp_all add: ReleaseQuota_def check_permission_eq WithTransaction_commit ReleaseQuota_tx_eq
          commit_distrib asked_def cong: option.case_cong if_cong)
qed

lemma AllocateQuota_eq:
  "AllocateQuota ac u pid req qu au now s =
     (case CheckPermission ac u pid [QuotaPermissionAdmin] of
        Inl e \<Rightarrow> (Inl UpstreamError, asked u pid QuotaPermissionAdmin s)
      | Inr b \<Rightarrow>
          if \<not> b then (Inl PermissionDenied, asked u pid QuotaPermissionAdmin s)
          else if sint (alloc_AllocateMB req) \<le> 0
            then (Inl ValidationError, asked u pid QuotaPermissionAdmin s)
          else
           (case find (live pid) (quotas (store s)) of
              None \<Rightarrow> (Inl NotFound, asked u pid QuotaPermissionAdmin s)
            | Some p \<Rightarrow>
                if sint (TotalMB p - UsedMB p - AllocatedMB p) < sint (alloc_AllocateMB req)
                then (Inl InsufficientCapacity, asked u pid QuotaPermissionAdmin s)
                else
                 (case validateAllocationRules p req of
                    Some e \<Rightarrow> (Inl e, asked u pid QuotaPermissionAdmin s)
                  | None \<Rightarrow>
                     (case insert_quota (child_quota p pid req (''quota_'' @ qu) now) (store s) of
                        None \<Rightarrow> (Inl StorageError, asked u pid QuotaPermissionAdmin s)
                      | Some db1 \<Rightarrow>
                         (case update_quota pid (set_allocated_plus (alloc_AllocateMB req) now) db1 of
                            None \<Rightarrow> (Inl StorageError, asked u pid QuotaPermissionAdmin s)
                          | Some db2 \<Rightarrow>
                             (case CreateResource ac u (''quota_'' @ qu) ''quota'' (alloc_Name req)
                                     (alloc_Description req) of
                                Some e \<Rightarrow> (Inl UpstreamError,
                                  \<lparr>store = store s,
                                   sent = sent s @ [CheckPermissionCall u pid [QuotaPermissionAdmin],
                                     CreateResourceCall u (''quota_'' @ qu) ''quota'' (alloc_Name req)
                                       (alloc_Description req)],
                                   logged = logged s\<rparr>)
                              | None \<Rightarrow>
                                 (case insert_audit (audit_entry au (''quota_'' @ qu) ''allocate''
                                          (user_UserID u)
                                          [(''parent_quota_id'', JString pid),
                                           (''allocated_mb'', JNumber (alloc_AllocateMB req)),
                                           (''name'', JString (alloc_Name req)),
                                           (''type'', JString (alloc_Type req))] now) db2 of
                                    None \<Rightarrow> (Inr (child_quota p pid req (''quota_'' @ qu) now),
                                      \<lparr>store = store s,
                                       sent = sent s @ CheckPermissionCall u pid [QuotaPermissionAdmin] #
                                         CreateResourceCall u (''quota_'' @ qu) ''quota'' (alloc_Name req)
                                           (alloc_Description req) #
                                         grant_calls u (''quota_'' @ qu) (alloc_AdminUserIDs req),
                                       logged = logged s @
                                         grant_warnings ac u (''quota_'' @ qu) (alloc_AdminUserIDs req) @
                                         [''Failed to create audit log'']\<rparr>)
                                  | Some db3 \<Rightarrow> (Inr (child_quota p pid req (''quota_'' @ qu) now),
                                      \<lparr>store = db3,
                                       sent = sent s @ CheckPermissionCall u pid [QuotaPermissionAdmin] #
                                         CreateResourceCall u (''quota_'' @ qu) ''quota'' (alloc_Name req)
                                           (alloc_Description req) #
                                         grant_calls u (''quota_'' @ qu) (alloc_AdminUserIDs req),
                                       logged = logged s @
                                         grant_warnings ac u (''quota_'' @ qu) (alloc_AdminUserIDs req)\<rparr>))))))))"
proof (cases "CheckPermission ac u pid [QuotaPermissionAdmin]")
  case (Inl e)
  then show ?thesis
    by (simp add: AllocateQuota_def check_permission_eq asked_def)
next
  case (Inr b)
  then show ?thesis
    by (cases b)
       (simp_all add: AllocateQuota_def check_permission_eq WithTransaction_commit AllocateQuota_tx_eq
          commit_distrib asked_def cong: option.case_cong if_cong)
qed

lemma GetQuota_eq:
  "GetQuota ac u i s =
     (case CheckPermission ac u i [QuotaPermissionRead] of
        Inl e \<Rightarrow> (Inl UpstreamError, asked u i QuotaPermissionRead s)
      | Inr b \<Rightarrow>
          if \<not> b then (Inl PermissionDenied, asked u i QuotaPermissionRead s)
          else
           (case find (live i) (quotas (store s)) of
              None \<Rightarrow> (Inl NotFound, asked u i QuotaPermissionRead s)
            | Some q \<Rightarrow> (Inr (q\<lparr>AvailableMB := TotalMB q - UsedMB q - AllocatedMB q\<rparr>),
                         asked u i QuotaPermissionRead s)))"
  by (auto simp: GetQuota_def check_permission_eq asked_def split: option.splits sum.splits)

section \<open>The hierarchy rule\<close>

text \<open>
  Claim C2. The hierarchy check of \<open>AllocateQuota\<close> succeeds exactly when the parent's
  kind is organization and the requested kind is organization or team, or the parent's
  kind is team, the requested kind is team and the request's target id is the parent's
  team id. Every other combination, a team parent without a team id among them, is a
  HierarchyViolation; when \<open>AllocateQuota\<close> reaches the check and it fails, the call
  returns that error and the database is unchanged.
\<close>

theorem C2_hierarchy_rule:
  "(validateAllocationRules p req = None \<longleftrightarrow>
      Type p = ''organization'' \<and> (alloc_Type req = ''organization'' \<or> alloc_Type req = ''team'') \<or>
      Type p = ''team'' \<and> alloc_Type req = ''team'' \<and> TeamID p = Some (alloc_TargetID req)) \<and>
   (validateAllocationRules p req \<noteq> None \<longrightarrow>
      validateAllocationRules p req = Some HierarchyViolation) \<and>
   (CheckPermission ac u pid [QuotaPermissionAdmin] = Inr True \<longrightarrow>
    0 < sint (alloc_AllocateMB req) \<longrightarrow>
    find (live pid) (quotas (store s)) = Some p \<longrightarrow>
    \<not> sint (TotalMB p - UsedMB p - AllocatedMB p) < sint (alloc_AllocateMB req) \<longrightarrow>
    validateAllocationRules p req \<noteq> None \<longrightarrow>
      fst (AllocateQuota ac u pid req qu au now s) = Inl HierarchyViolation \<and>
      store (snd (AllocateQuota ac u pid req qu au now s)) = store s)"
proof -
  have iff: "validateAllocationRules p req = None \<longleftrightarrow>
      Type p = ''organization'' \<and> (alloc_Type req = ''organization'' \<or> alloc_Type req = ''team'') \<or>
      Type p = ''team'' \<and> alloc_Type req = ''team'' \<and> TeamID p = Some (alloc_TargetID req)"
    by (auto simp: validateAllocationRules_def QuotaTypeOrganization_def QuotaTypeTeam_def
        split: option.splits)
  have err: "validateAllocationRules p req \<noteq> None \<longrightarrow>
      validateAllocationRules p req = Some HierarchyViolation"
    by (simp add: validateAllocationRules_def split: option.splits)
  have op: "CheckPermission ac u pid [QuotaPermissionAdmin] = Inr True \<longrightarrow>
    0 < sint (alloc_AllocateMB req) \<longrightarrow>
    find (live pid) (quotas (store s)) = Some p \<longrightarrow>
    \<not> sint (TotalMB p - UsedMB p - AllocatedMB p) < sint (alloc_AllocateMB req) \<longrightarrow>
    validateAllocationRules p req \<noteq> None \<longrightarrow>
      fst (AllocateQuota ac u pid req qu au now s) = Inl HierarchyViolation \<and>
      store (snd (AllocateQuota ac u pid req qu au now s)) = store s"
    using err by (auto simp: AllocateQuota_eq)
  from iff err op show ?thesis by blast
qed

theorem C2_hierarchy_rule_witness:
  "validateAllocationRules ex_team ex_alloc_T2 = Some HierarchyViolation \<and>
   fst (AllocateQuota ex_allow ex_user ''quota_t'' ex_alloc_T2 ''c'' ''a'' 2 ex_team_sys)
     = Inl HierarchyViolation \<and>
   store (snd (AllocateQuota ex_allow ex_user ''quota_t'' ex_alloc_T2 ''c'' ''a'' 2 ex_team_sys))
     = store ex_team_sys"
  using C2_hierarchy_rule [of ex_team ex_alloc_T2 ex_allow ex_user "''quota_t''" ex_team_sys "''c''" "''a''" 2]
  by (simp add: ex_team_def ex_alloc_T2_def ex_allow_def ex_team_sys_def live_def
      QuotaStatusDeleted_def QuotaPermissionAdmin_def)

section \<open>Root creation\<close>



section \<open>The capability check\<close>

text \<open>
  \<open>CreateQuota\<close> sends nothing to the authorization service: on the empty system it
  creates a root while the list of requests stays empty.
\<close>

theorem C8_CreateQuota_without_check:
  "sent (snd (CreateQuota ex_user ex_create ''r'' ''a'' 1 ex_empty_sys)) = [] \<and>
   map ID (quotas (store (snd (CreateQuota ex_user ex_create ''r'' ''a'' 1 ex_empty_sys))))
     = [''quota_r'']"
  by (simp add: CreateQuota_eq ex_create_def ex_empty_sys_def empty_db_def ex_user_def
      QuotaTypeOrganization_def QuotaTypeTeam_def insert_quota_def insert_audit_def
      quotas_check_def root_quota_def QuotaStatusActive_def audit_entry_def)

lemma denied_cases:
  "x \<noteq> Inr True \<Longrightarrow> (\<exists>e. x = Inl e) \<or> x = Inr False"
  by (cases x) auto

text \<open>
  Claim C8, amended. \<open>AllocateQuota\<close> and \<open>ReleaseQuota\<close> (capability admin),
  \<open>AllocateUsage\<close>, \<open>DeallocateUsage\<close> and \<open>GetQuota\<close> (capability read) send one
  capability check before anything else; when the answer is a refusal or an error of the
  call, the function returns PermissionDenied or UpstreamError and nothing but the sent
  request has changed: database (ledger, usage journal, audit trail) and log are as
  before. \<open>CreateQuota\<close> sends no request at all.
\<close>

theorem C8_capability_check:
  "(CheckPermission ac u i [QuotaPermissionAdmin] \<noteq> Inr True \<longrightarrow>
      (fst (AllocateQuota ac u i areq qu au now s) = Inl PermissionDenied \<or>
       fst (AllocateQuota ac u i areq qu au now s) = Inl UpstreamError) \<and>
      snd (AllocateQuota ac u i areq qu au now s) = asked u i QuotaPermissionAdmin s \<and>
      (fst (ReleaseQuota ac u i au now s) = Inl PermissionDenied \<or>
       fst (ReleaseQuota ac u i au now s) = Inl UpstreamError) \<and>
      snd (ReleaseQuota ac u i au now s) = asked u i QuotaPermissionAdmin s) \<and>
   (CheckPermission ac u i [QuotaPermissionRead] \<noteq> Inr True \<longrightarrow>
      (fst (AllocateUsage ac u i ureq uu au now s) = Inl PermissionDenied \<or>
       fst (AllocateUsage ac u i ureq uu au now s) = Inl UpstreamError) \<and>
      snd (AllocateUsage ac u i ureq uu au now s) = asked u i QuotaPermissionRead s \<and>
      (fst (DeallocateUsage ac u i ureq uu au now s) = Inl PermissionDenied \<or>
       fst (DeallocateUsage ac u i ureq uu au now s) = Inl UpstreamError) \<and>
      snd (DeallocateUsage ac u i ureq uu au now s) = asked u i QuotaPermissionRead s \<and>
      (fst (GetQuota ac u i s) = Inl PermissionDenied \<or>
       fst (GetQuota ac u i s) = Inl UpstreamError) \<and>
      snd (GetQuota ac u i s) = asked u i QuotaPermissionRead s) \<and>
   (\<exists>rest. sent (snd (AllocateQuota ac u i areq qu au now s))
      = sent s @ CheckPermissionCall u i [QuotaPermissionAdmin] # rest) \<and>
   sent (snd (ReleaseQuota ac u i au now s))
      = sent s @ [CheckPermissionCall u i [QuotaPermissionAdmin]] \<and>
   sent (snd (AllocateUsage ac u i ureq uu au now s))
      = sent s @ [CheckPermissionCall u i [QuotaPermissionRead]] \<and>
   sent (snd (DeallocateUsage ac u i ureq uu au now s))
      = sent s @ [CheckPermissionCall u i [QuotaPermissionRead]] \<and>
   sent (snd (GetQuota ac u i s))
      = sent s @ [CheckPermissionCall u i [QuotaPermissionRead]] \<and>
   sent (snd (CreateQuota u creq qu au now s)) = sent s"
proof -
  have a: "CheckPermission ac u i [QuotaPermissionAdmin] \<noteq> Inr True \<Longrightarrow>
      (fst (AllocateQuota ac u i areq qu au now s) = Inl PermissionDenied \<or>
       fst (AllocateQuota ac u i areq qu au now s) = Inl UpstreamError) \<and>
      snd (AllocateQuota ac u i areq qu au now s) = asked u i QuotaPermissionAdmin s"
    using denied_cases [of "CheckPermission ac u i [QuotaPermissionAdmin]"]
    by (auto simp: AllocateQuota_eq)
  have r: "CheckPermission ac u i [QuotaPermissionAdmin] \<noteq> Inr True \<Longrightarrow>
      (fst (ReleaseQuota ac u i au now s) = Inl PermissionDenied \<or>
       fst (ReleaseQuota ac u i au now s) = Inl UpstreamError) \<and>
      snd (ReleaseQuota ac u i au now s) = asked u i QuotaPermissionAdmin s"
    using denied_cases [of "CheckPermission ac u i [QuotaPermissionAdmin]"]
    by (auto simp: ReleaseQuota_eq)
  have au: "CheckPermission ac u i [QuotaPermissionRead] \<noteq> Inr True \<Longrightarrow>
      (fst (AllocateUsage ac u i ureq uu au now s) = Inl PermissionDenied \<or>
       fst (AllocateUsage ac u i ureq uu au now s) = Inl UpstreamError) \<and>
      snd (AllocateUsage ac u i ureq uu au now s) = asked u i QuotaPermissionRead s"
    using denied_cases [of "CheckPermission ac u i [QuotaPermissionRead]"]
    by (auto simp: AllocateUsage_eq)
  have du: "CheckPermission ac u i [QuotaPermissionRead] \<noteq> Inr True \<Longrightarrow>
      (fst (DeallocateUsage ac u i ureq uu au now s) = Inl PermissionDenied \<or>
       fst (DeallocateUsage ac u i ureq uu au now s) = Inl UpstreamError) \<and>
      snd (DeallocateUsage ac u i ureq uu au now s) = asked u i QuotaPermissionRead s"
    using denied_cases [of "CheckPermission ac u i [QuotaPermissionRead]"]
    by (auto simp: DeallocateUsage_eq)
  have g: "CheckPermission ac u i [QuotaPermissionRead] \<noteq> Inr True \<Longrightarrow>
      (fst (GetQuota ac u i s) = Inl PermissionDenied \<or>
       fst (GetQuota ac u i s) = Inl UpstreamError) \<and>
      snd (GetQuota ac u i s) = asked u i QuotaPermissionRead s"
    using denied_cases [of "CheckPermission ac u i [QuotaPermissionRead]"]
    by (auto simp: GetQuota_eq)
  have sa: "\<exists>rest. sent (snd (AllocateQuota ac u i areq qu au now s))
      = sent s @ CheckPermissionCall u i [QuotaPermissionAdmin] # rest"
    by (simp add: AllocateQuota_eq split: sum.splits option.splits)
  have sr: "sent (snd (ReleaseQuota ac u i au now s))
      = sent s @ [CheckPermissionCall u i [QuotaPermissionAdmin]]"
    by (simp add: ReleaseQuota_eq split: sum.splits option.splits)
  have sau: "sent (snd (AllocateUsage ac u i ureq uu au now s))
      = sent s @ [CheckPermissionCall u i [QuotaPermissionRead]]"
    by (simp add: AllocateUsage_eq split: sum.splits option.splits)
  have sdu: "sent (snd (DeallocateUsage ac u i ureq uu au now s))
      = sent s @ [CheckPermissionCall u i [QuotaPermissionRead]]"
    by (simp add: DeallocateUsage_eq split: sum.splits option.splits)
  have sg: "sent (snd (GetQuota ac u i s))
      = sent s @ [CheckPermissionCall u i [QuotaPermissionRead]]"
    by (simp add: GetQuota_eq split: sum.splits option.splits)
  have sc: "sent (snd (CreateQuota u creq qu au now s)) = sent s"
    by (simp add: CreateQuota_eq split: option.splits)
  from a r au du g sa sr sau sdu sg sc show ?thesis
    by blast
qed

theorem C8_capability_check_witness:
  "snd (AllocateQuota ex_deny ex_user ''quota_r'' ex_alloc ''c'' ''a'' 2 ex_root_sys)
     = asked ex_user ''quota_r'' QuotaPermissionAdmin ex_root_sys \<and>
   snd (ReleaseQuota ex_deny ex_user ''quota_r'' ''a'' 2 ex_root_sys)
     = asked ex_user ''quota_r'' QuotaPermissionAdmin ex_root_sys \<and>
   snd (AllocateUsage ex_deny ex_user ''quota_r'' ex_usage ''u'' ''a'' 2 ex_root_sys)
     = asked ex_user ''quota_r'' QuotaPermissionRead ex_root_sys \<and>
   snd (DeallocateUsage ex_deny ex_user ''quota_r'' ex_usage ''u'' ''a'' 2 ex_root_sys)
     = asked ex_user ''quota_r'' QuotaPermissionRead ex_root_sys \<and>
   snd (GetQuota ex_deny ex_user ''quota_r'' ex_root_sys)
     = asked ex_user ''quota_r'' QuotaPermissionRead ex_root_sys"
  using C8_capability_check [of ex_deny ex_user "''quota_r''" ex_alloc "''c''" "''a''" 2
      ex_root_sys ex_usage "''u''"]
  by (simp add: ex_deny_def)

section \<open>Registration and grants in AllocateQuota\<close>




section \<open>The invariants of the ledger are preserved\<close>

lemma children_total_contrib: "children_total rs p = sum_list (map (contrib p) rs)"
  unfolding children_total_def contrib_def
  by (induction rs) simp_all

lemma children_total_map: "children_total (map h rs) p = sum_list (map (\<lambda>r. contrib p (h r)) rs)"
  by (simp add: children_total_contrib comp_def)

lemma children_total_append: "children_total (rs @ [c]) p = children_total rs p + contrib p c"
  by (simp add: children_total_contrib)

lemma sum_list_cong:
  "(\<forall>r\<in>set rs. F r = G r) \<Longrightarrow> sum_list (map F rs) = (sum_list (map G rs) :: int)"
  by (induction rs) auto

lemma sum_list_except:
  "distinct (map ID rs) \<Longrightarrow> q \<in> set rs \<Longrightarrow>
     sum_list (map (\<lambda>r. if ID r = ID q then (0::int) else F r) rs) = sum_list (map F rs) - F q"
proof (induction rs)
  case Nil
  then show ?case by simp
next
  case (Cons a rs)
  show ?case
  proof (cases "a = q")
    case True
    with Cons.prems have "ID q \<notin> ID ` set rs" by simp
    then have "\<forall>r\<in>set rs. ID r \<noteq> ID q" by (metis imageI)
    then have "sum_list (map (\<lambda>r. if ID r = ID q then (0::int) else F r) rs) = sum_list (map F rs)"
      by (intro sum_list_cong) simp
    with True show ?thesis by simp
  next
    case False
    with Cons.prems have "q \<in> set rs" "ID a \<noteq> ID q" "distinct (map ID rs)" by auto
    with Cons.IH show ?thesis by simp
  qed
qed

lemma children_total_no_parent:
  "fk_ok rs \<Longrightarrow> p \<notin> set (map ID rs) \<Longrightarrow> children_total rs p = 0"
proof -
  assume fk: "fk_ok rs" and p: "p \<notin> set (map ID rs)"
  have "\<forall>r\<in>set rs. contrib p r = 0"
    using fk p by (auto simp: fk_ok_def list_all_iff contrib_def split: option.splits)
  then have "sum_list (map (contrib p) rs) = sum_list (map (\<lambda>r. 0) rs)"
    by (intro sum_list_cong) simp
  then show ?thesis
    by (simp add: children_total_contrib)
qed

lemma contrib_generated [simp]: "contrib p (generated r) = contrib p r"
  by (simp add: contrib_def)

text \<open>Statements that leave table \<open>quotas\<close> alone.\<close>

lemma insert_usage_quotas: "insert_usage e db = Some db' \<Longrightarrow> quotas db' = quotas db"
  by (auto simp: insert_usage_Some)

lemma insert_audit_quotas: "insert_audit e db = Some db' \<Longrightarrow> quotas db' = quotas db"
  by (auto simp: insert_audit_Some)

lemma ledger_ok_quotas: "quotas db' = quotas db \<Longrightarrow> ledger_ok db' = ledger_ok db"
  by (simp add: ledger_ok_def)

text \<open>An update that keeps identity, parent, status, total and allocated.\<close>

lemma keeps_shape_sets:
  "keeps_shape (set_used_plus n now)" "keeps_shape (set_used_minus n now)"
  "keeps_shape (set_allocated_plus n now)" "keeps_shape (set_allocated_minus n now)"
  by (auto simp: keeps_shape_def set_used_plus_def set_used_minus_def set_allocated_plus_def
      set_allocated_minus_def split: if_splits)

lemma update_quota_shape:
  assumes "update_quota i f db = Some db'" "keeps_shape f"
  shows "map ID (quotas db') = map ID (quotas db)"
    and "map ParentQuotaID (quotas db') = map ParentQuotaID (quotas db)"
    and "children_total (quotas db') p = children_total (quotas db) p"
    and "checks_ok (quotas db) \<Longrightarrow> checks_ok (quotas db')"
proof -
  let ?h = "\<lambda>r. if ID r = i then generated (the (f r)) else r"
  from assms(1) have ok: "\<forall>r\<in>set (quotas db). ID r = i \<longrightarrow> (\<exists>r'. f r = Some r' \<and> quotas_check r')"
    and q': "quotas db' = map ?h (quotas db)"
    by (auto simp: update_quota_Some)
  have sh: "\<forall>r\<in>set (quotas db). ID (?h r) = ID r \<and> ParentQuotaID (?h r) = ParentQuotaID r \<and>
      contrib p (?h r) = contrib p r"
    using ok assms(2) by (auto simp: keeps_shape_def contrib_def)
  show "map ID (quotas db') = map ID (quotas db)"
    using sh by (simp add: q' comp_def cong: map_cong)
  show "map ParentQuotaID (quotas db') = map ParentQuotaID (quotas db)"
    using sh by (simp add: q' comp_def cong: map_cong)
  have "sum_list (map (\<lambda>r. contrib p (?h r)) (quotas db)) = sum_list (map (contrib p) (quotas db))"
    using sh by (intro sum_list_cong) simp
  then show "children_total (quotas db') p = children_total (quotas db) p"
    by (simp add: q' children_total_map) (simp add: children_total_contrib)
  show "checks_ok (quotas db) \<Longrightarrow> checks_ok (quotas db')"
    using ok by (auto simp: q' checks_ok_def list_all_iff)
qed

lemma fk_ok_alt:
  "fk_ok rs \<longleftrightarrow>
     (\<forall>po\<in>set (map ParentQuotaID rs). case po of None \<Rightarrow> True | Some p \<Rightarrow> p \<in> set (map ID rs))"
  by (auto simp: fk_ok_def list_all_iff)

lemma fk_ok_shape:
  "map ID rs' = map ID rs \<Longrightarrow> map ParentQuotaID rs' = map ParentQuotaID rs \<Longrightarrow>
     fk_ok rs' = fk_ok rs"
  by (simp only: fk_ok_alt)

lemma alloc_ok_map:
  "alloc_ok (map h rs) \<longleftrightarrow>
     (\<forall>r\<in>set rs. sint (AllocatedMB (h r)) = children_total (map h rs) (ID (h r)))"
  by (simp add: alloc_ok_def list_all_iff)

lemma usage_update_ok:
  assumes ok: "ledger_ok db" and upd: "update_quota i f db = Some db'" and sh: "keeps_shape f"
    and al: "\<forall>r r'. f r = Some r' \<longrightarrow> AllocatedMB r' = AllocatedMB r"
  shows "ledger_ok db'"
proof -
  let ?h = "\<lambda>r. if ID r = i then generated (the (f r)) else r"
  from upd have succ: "\<forall>r\<in>set (quotas db). ID r = i \<longrightarrow> (\<exists>r'. f r = Some r' \<and> quotas_check r')"
    and q': "quotas db' = map ?h (quotas db)"
    by (auto simp: update_quota_Some)
  note shp = update_quota_shape [OF upd sh]
  have pk: "pk_ok (quotas db')"
    using ok shp(1) by (simp add: ledger_ok_def pk_ok_def)
  have ck: "checks_ok (quotas db')"
    using ok shp(4) by (simp add: ledger_ok_def)
  have fk: "fk_ok (quotas db')"
    using ok fk_ok_shape [OF shp(1) shp(2)] by (simp add: ledger_ok_def)
  have "\<forall>r\<in>set (quotas db). sint (AllocatedMB (?h r)) = children_total (quotas db') (ID (?h r))"
  proof
    fix r assume r: "r \<in> set (quotas db)"
    with ok have a: "sint (AllocatedMB r) = children_total (quotas db) (ID r)"
      by (simp add: ledger_ok_def alloc_ok_def list_all_iff)
    have "AllocatedMB (?h r) = AllocatedMB r \<and> ID (?h r) = ID r"
      using succ r al sh by (auto simp: keeps_shape_def)
    with a shp(3) show "sint (AllocatedMB (?h r)) = children_total (quotas db') (ID (?h r))"
      by simp
  qed
  then have "alloc_ok (quotas db')"
    by (simp only: alloc_ok_map q')
  with pk ck fk show ?thesis by (simp add: ledger_ok_def)
qed

lemma set_used_allocated:
  "set_used_plus n now r = Some r' \<Longrightarrow> AllocatedMB r' = AllocatedMB r"
  "set_used_minus n now r = Some r' \<Longrightarrow> AllocatedMB r' = AllocatedMB r"
  by (auto simp: set_used_plus_def set_used_minus_def split: if_splits)

lemma insert_root_ok:
  assumes ok: "ledger_ok db" and ins: "insert_quota c db = Some db'"
    and par: "ParentQuotaID c = None" and al: "AllocatedMB c = 0"
  shows "ledger_ok db'"
proof -
  from ins have fresh: "ID c \<notin> set (map ID (quotas db))" and chk: "quotas_check c"
    and q': "quotas db' = quotas db @ [generated c]"
    by (auto simp: insert_quota_Some)
  have pk: "pk_ok (quotas db')"
    using ok fresh by (simp add: ledger_ok_def pk_ok_def q')
  have ck: "checks_ok (quotas db')"
    using ok chk by (simp add: ledger_ok_def checks_ok_def q')
  have fk: "fk_ok (quotas db')"
    using ok par by (auto simp: ledger_ok_def fk_ok_def list_all_iff q' split: option.splits)
  have c0: "contrib p (generated c) = 0" for p
    using par by (simp add: contrib_def)
  have "children_total (quotas db) (ID c) = 0"
    using ok fresh by (intro children_total_no_parent) (simp_all add: ledger_ok_def)
  then have "alloc_ok (quotas db')"
    using ok al c0 by (simp add: ledger_ok_def alloc_ok_def list_all_iff q' children_total_append)
  with pk ck fk show ?thesis by (simp add: ledger_ok_def)
qed

lemma allocate_pair_ok:
  assumes ok: "ledger_ok db" and ins: "insert_quota c db = Some db1"
    and upd: "update_quota P (set_allocated_plus n now) db1 = Some db2"
    and par: "ParentQuotaID c = Some P" and tot: "TotalMB c = n" and al: "AllocatedMB c = 0"
    and st: "Status c \<noteq> QuotaStatusDeleted"
  shows "ledger_ok db2"
proof -
  let ?f = "set_allocated_plus n now"
  let ?h = "\<lambda>r. if ID r = P then generated (the (?f r)) else r"
  from ins have fresh: "ID c \<notin> set (map ID (quotas db))" and chk: "quotas_check c"
    and Pin: "P \<in> set (map ID (quotas db))"
    and q1: "quotas db1 = quotas db @ [generated c]"
    using par by (auto simp: insert_quota_Some)
  from upd have succ: "\<forall>r\<in>set (quotas db1). ID r = P \<longrightarrow> (\<exists>r'. ?f r = Some r' \<and> quotas_check r')"
    and q2: "quotas db2 = map ?h (quotas db1)"
    by (auto simp: update_quota_Some)
  note shp = update_quota_shape [OF upd keeps_shape_sets(3)]
  have cP: "ID c \<noteq> P" using fresh Pin by auto
  have pk: "pk_ok (quotas db2)"
    using ok fresh shp(1) by (simp add: ledger_ok_def pk_ok_def q1)
  have "checks_ok (quotas db1)"
    using ok chk by (simp add: ledger_ok_def checks_ok_def q1)
  then have ck: "checks_ok (quotas db2)" by (rule shp(4))
  have "fk_ok (quotas db1)"
    using ok par Pin by (auto simp: ledger_ok_def fk_ok_def list_all_iff q1 split: option.splits)
  then have fk: "fk_ok (quotas db2)"
    using fk_ok_shape [OF shp(1) shp(2)] by simp
  have ct: "children_total (quotas db2) p = children_total (quotas db) p + (if p = P then sint n else 0)" for p
    using shp(3) [of p] par tot st by (simp add: q1 children_total_append contrib_def)
  have c0: "children_total (quotas db) (ID c) = 0"
    using ok fresh by (intro children_total_no_parent) (simp_all add: ledger_ok_def)
  have old: "\<forall>r\<in>set (quotas db). sint (AllocatedMB (?h r)) = children_total (quotas db2) (ID (?h r))"
  proof
    fix r assume r: "r \<in> set (quotas db)"
    with ok have a: "sint (AllocatedMB r) = children_total (quotas db) (ID r)"
      by (simp add: ledger_ok_def alloc_ok_def list_all_iff)
    show "sint (AllocatedMB (?h r)) = children_total (quotas db2) (ID (?h r))"
    proof (cases "ID r = P")
      case True
      with succ r obtain r' where r': "?f r = Some r'" by (auto simp: q1)
      then have "bigint_ok (sint (AllocatedMB r) + sint n)" "AllocatedMB r' = AllocatedMB r + n" "ID r' = ID r"
        by (auto simp: set_allocated_plus_def split: if_splits)
      then show ?thesis using True r' a ct by (simp add: sint_plus_ok)
    next
      case False
      then show ?thesis using a ct by simp
    qed
  qed
  have new: "sint (AllocatedMB (?h (generated c))) = children_total (quotas db2) (ID (?h (generated c)))"
    using cP al c0 ct by simp
  from old new have "\<forall>r\<in>set (quotas db1).
      sint (AllocatedMB (?h r)) = children_total (quotas db2) (ID (?h r))"
    by (simp only: q1 set_append list.set ball_Un ball_simps)
  then have "alloc_ok (quotas db2)"
    by (simp only: alloc_ok_map q2)
  with pk ck fk show ?thesis by (simp add: ledger_ok_def)
qed

lemma release_pair_ok:
  assumes ok: "ledger_ok db" and q: "find (live i) (quotas db) = Some q"
    and par: "(case ParentQuotaID q of None \<Rightarrow> Some db
               | Some p \<Rightarrow> update_quota p (set_allocated_minus (TotalMB q) now) db) = Some db1"
    and del: "update_quota i (set_deleted now) db1 = Some db2"
  shows "ledger_ok db2"
proof -
  let ?n = "TotalMB q"
  let ?f = "set_allocated_minus ?n now"
  define h1 where "h1 = (\<lambda>r. if Some (ID r) = ParentQuotaID q then generated (the (?f r)) else r)"
  define h2 where "h2 = (\<lambda>r. if ID r = i then generated (the (set_deleted now r)) else r)"
  from q have qin: "q \<in> set (quotas db)" and qid: "ID q = i" and qst: "Status q \<noteq> QuotaStatusDeleted"
    by (auto simp: find_Some_iff live_def)
  have succ1: "\<forall>r\<in>set (quotas db). Some (ID r) = ParentQuotaID q \<longrightarrow> (\<exists>r'. ?f r = Some r' \<and> quotas_check r')"
    and q1: "quotas db1 = map h1 (quotas db)"
    using par by (auto simp: update_quota_Some h1_def split: option.splits)
  have q2: "quotas db2 = map h2 (quotas db1)"
    and succ2: "\<forall>r\<in>set (quotas db1). ID r = i \<longrightarrow> quotas_check (the (set_deleted now r))"
    using del by (auto simp: update_quota_Some h2_def)
  have h1_shape: "ID (h1 r) = ID r \<and> ParentQuotaID (h1 r) = ParentQuotaID r \<and>
      Status (h1 r) = Status r \<and> TotalMB (h1 r) = TotalMB r" if "r \<in> set (quotas db)" for r
    using succ1 that by (auto simp: h1_def set_allocated_minus_def split: if_splits)
  have h2_shape: "ID (h2 r) = ID r \<and> ParentQuotaID (h2 r) = ParentQuotaID r \<and>
      TotalMB (h2 r) = TotalMB r \<and> AllocatedMB (h2 r) = AllocatedMB r \<and>
      Status (h2 r) = (if ID r = i then QuotaStatusDeleted else Status r)" for r
    by (simp add: h2_def set_deleted_def)
  have ids: "map ID (quotas db2) = map ID (quotas db)"
    using h1_shape h2_shape by (simp add: q2 q1 comp_def cong: map_cong)
  have pars: "map ParentQuotaID (quotas db2) = map ParentQuotaID (quotas db)"
    using h1_shape h2_shape by (simp add: q2 q1 comp_def cong: map_cong)
  have pk: "pk_ok (quotas db2)"
    using ok ids by (simp add: ledger_ok_def pk_ok_def)
  have fk: "fk_ok (quotas db2)"
    using ok fk_ok_shape [OF ids pars] by (simp add: ledger_ok_def)
  have ck1: "checks_ok (quotas db1)"
    using ok succ1 by (auto simp: ledger_ok_def checks_ok_def list_all_iff q1 h1_def)
  have ck: "checks_ok (quotas db2)"
    using ck1 succ2 by (auto simp: checks_ok_def list_all_iff q2 h2_def)
  have con: "contrib p (h2 (h1 r)) = (if ID r = ID q then 0 else contrib p r)"
    if "r \<in> set (quotas db)" for r p
    using h1_shape [OF that] h2_shape [of "h1 r"] qid by (simp add: contrib_def)
  have dist: "distinct (map ID (quotas db))"
    using ok by (simp add: ledger_ok_def pk_ok_def)
  have ct: "children_total (quotas db2) p = children_total (quotas db) p - contrib p q" for p
  proof -
    have "children_total (quotas db2) p = sum_list (map (\<lambda>r. contrib p (h2 (h1 r))) (quotas db))"
      by (simp add: q2 q1 children_total_map comp_def)
    also have "\<dots> = sum_list (map (\<lambda>r. if ID r = ID q then 0 else contrib p r) (quotas db))"
      using con by (intro sum_list_cong) simp
    also have "\<dots> = sum_list (map (contrib p) (quotas db)) - contrib p q"
      using dist qin by (rule sum_list_except)
    finally show ?thesis by (simp add: children_total_contrib)
  qed
  have cq: "contrib p q = (if ParentQuotaID q = Some p then sint ?n else 0)" for p
    using qst by (simp add: contrib_def)
  have "\<forall>r\<in>set (quotas db). sint (AllocatedMB (h2 (h1 r))) = children_total (quotas db2) (ID (h2 (h1 r)))"
  proof
    fix r assume r: "r \<in> set (quotas db)"
    with ok have a: "sint (AllocatedMB r) = children_total (quotas db) (ID r)"
      by (simp add: ledger_ok_def alloc_ok_def list_all_iff)
    have idr: "ID (h2 (h1 r)) = ID r" using h1_shape [OF r] h2_shape by simp
    have alr: "AllocatedMB (h2 (h1 r)) = AllocatedMB (h1 r)" using h2_shape by simp
    show "sint (AllocatedMB (h2 (h1 r))) = children_total (quotas db2) (ID (h2 (h1 r)))"
    proof (cases "Some (ID r) = ParentQuotaID q")
      case True
      with succ1 r obtain r' where r': "?f r = Some r'" by auto
      then have "bigint_ok (sint (AllocatedMB r) - sint ?n)" "AllocatedMB r' = AllocatedMB r - ?n"
        by (auto simp: set_allocated_minus_def split: if_splits)
      then have "sint (AllocatedMB (h1 r)) = sint (AllocatedMB r) - sint ?n"
        using True r' by (simp add: h1_def sint_minus_ok)
      then show ?thesis using True a ct cq idr alr by simp
    next
      case False
      then have "h1 r = r" by (simp add: h1_def)
      moreover from False have "contrib (ID r) q = 0" by (auto simp: cq)
      ultimately show ?thesis using a ct idr alr by simp
    qed
  qed
  then have "alloc_ok (map (\<lambda>r. h2 (h1 r)) (quotas db))"
    by (simp only: alloc_ok_map q2 q1 map_map comp_def)
  then have "alloc_ok (quotas db2)"
    by (simp add: q2 q1 comp_def)
  with pk ck fk show ?thesis by (simp add: ledger_ok_def)
qed

lemma insert_usage_ok: "insert_usage e db = Some db' \<Longrightarrow> ledger_ok db \<Longrightarrow> ledger_ok db'"
  using ledger_ok_quotas [OF insert_usage_quotas] by blast

lemma insert_audit_ok: "insert_audit e db = Some db' \<Longrightarrow> ledger_ok db \<Longrightarrow> ledger_ok db'"
  using ledger_ok_quotas [OF insert_audit_quotas] by blast

lemma set_used_plus_ok:
  "update_quota i (set_used_plus n now) db = Some db' \<Longrightarrow> ledger_ok db \<Longrightarrow> ledger_ok db'"
  using usage_update_ok [of db i "set_used_plus n now" db'] keeps_shape_sets(1) set_used_allocated(1)
  by blast

lemma set_used_minus_ok:
  "update_quota i (set_used_minus n now) db = Some db' \<Longrightarrow> ledger_ok db \<Longrightarrow> ledger_ok db'"
  using usage_update_ok [of db i "set_used_minus n now" db'] keeps_shape_sets(2) set_used_allocated(2)
  by blast

lemma CreateQuota_committed:
  "store (snd (CreateQuota u req qu au now s)) \<noteq> store s \<longrightarrow>
   (\<exists>db1. insert_quota (root_quota u req (''quota_'' @ qu) now) (store s) = Some db1 \<and>
     insert_audit (audit_entry au (''quota_'' @ qu) ''create'' (user_UserID u)
        (create_details req) now) db1 = Some (store (snd (CreateQuota u req qu au now s))) \<and>
     fst (CreateQuota u req qu au now s) = Inr (root_quota u req (''quota_'' @ qu) now))"
  by (simp add: CreateQuota_eq create_details_def split: option.split)

lemma AllocateUsage_committed:
  "store (snd (AllocateUsage ac u i req uu au now s)) \<noteq> store s \<longrightarrow>
   (\<exists>q db1 db2. find (live i) (quotas (store s)) = Some q \<and>
     \<not> sint (TotalMB q - UsedMB q - AllocatedMB q) < sint (req_UsageMB req) \<and>
     update_quota i (set_used_plus (req_UsageMB req) now) (store s) = Some db1 \<and>
     insert_usage (usage_entry uu i u req OperationAllocate now) db1 = Some db2 \<and>
     insert_audit (audit_entry au i ''usage_allocate'' (user_UserID u) (usage_details req) now) db2
        = Some (store (snd (AllocateUsage ac u i req uu au now s))) \<and>
     fst (AllocateUsage ac u i req uu au now s) = Inr ())"
  by (simp add: AllocateUsage_eq split: sum.split option.split)

lemma DeallocateUsage_committed:
  "store (snd (DeallocateUsage ac u i req uu au now s)) \<noteq> store s \<longrightarrow>
   (\<exists>q db1 db2. find (live i) (quotas (store s)) = Some q \<and>
     \<not> sint (UsedMB q) < sint (req_UsageMB req) \<and>
     update_quota i (set_used_minus (req_UsageMB req) now) (store s) = Some db1 \<and>
     insert_usage (usage_entry uu i u req OperationDeallocate now) db1 = Some db2 \<and>
     insert_audit (audit_entry au i ''usage_deallocate'' (user_UserID u) (usage_details req) now) db2
        = Some (store (snd (DeallocateUsage ac u i req uu au now s))) \<and>
     fst (DeallocateUsage ac u i req uu au now s) = Inr ())"
  by (simp add: DeallocateUsage_eq split: sum.split option.split)

lemma ReleaseQuota_committed:
  "store (snd (ReleaseQuota ac u i au now s)) \<noteq> store s \<longrightarrow>
   (\<exists>q db1 db2. find (live i) (quotas (store s)) = Some q \<and>
     \<not> (0 < sint (UsedMB q) \<or> 0 < sint (AllocatedMB q)) \<and>
     (case ParentQuotaID q of None \<Rightarrow> Some (store s)
      | Some p \<Rightarrow> update_quota p (set_allocated_minus (TotalMB q) now) (store s)) = Some db1 \<and>
     update_quota i (set_deleted now) db1 = Some db2 \<and>
     insert_audit (audit_entry au i ''release'' (user_UserID u) (release_details q) now) db2
        = Some (store (snd (ReleaseQuota ac u i au now s))) \<and>
     fst (ReleaseQuota ac u i au now s) = Inr ())"
  by (simp add: ReleaseQuota_eq release_details_def split: sum.split option.split)

lemma AllocateQuota_committed:
  "store (snd (AllocateQuota ac u pid req qu au now s)) \<noteq> store s \<longrightarrow>
   (\<exists>p db1 db2. find (live pid) (quotas (store s)) = Some p \<and>
     0 < sint (alloc_AllocateMB req) \<and>
     \<not> sint (TotalMB p - UsedMB p - AllocatedMB p) < sint (alloc_AllocateMB req) \<and>
     validateAllocationRules p req = None \<and>
     insert_quota (child_quota p pid req (''quota_'' @ qu) now) (store s) = Some db1 \<and>
     update_quota pid (set_allocated_plus (alloc_AllocateMB req) now) db1 = Some db2 \<and>
     insert_audit (audit_entry au (''quota_'' @ qu) ''allocate'' (user_UserID u)
        (allocate_details pid req) now) db2
        = Some (store (snd (AllocateQuota ac u pid req qu au now s))) \<and>
     fst (AllocateQuota ac u pid req qu au now s) = Inr (child_quota p pid req (''quota_'' @ qu) now))"
  by (simp add: AllocateQuota_eq allocate_details_def split: sum.split option.split)

lemma failed_store:
  "isl (fst (CreateQuota u creq qu au now s)) \<longrightarrow> store (snd (CreateQuota u creq qu au now s)) = store s"
  "isl (fst (AllocateQuota ac u i areq qu au now s)) \<longrightarrow>
     store (snd (AllocateQuota ac u i areq qu au now s)) = store s"
  "isl (fst (ReleaseQuota ac u i au now s)) \<longrightarrow> store (snd (ReleaseQuota ac u i au now s)) = store s"
  "isl (fst (AllocateUsage ac u i ureq uu au now s)) \<longrightarrow>
     store (snd (AllocateUsage ac u i ureq uu au now s)) = store s"
  "isl (fst (DeallocateUsage ac u i ureq uu au now s)) \<longrightarrow>
     store (snd (DeallocateUsage ac u i ureq uu au now s)) = store s"
  by (simp_all add: CreateQuota_eq AllocateQuota_eq ReleaseQuota_eq AllocateUsage_eq
      DeallocateUsage_eq split: sum.split option.split)

lemma GetQuota_store: "store (snd (GetQuota ac u i s)) = store s"
  by (simp add: GetQuota_eq split: sum.split option.split)

lemma CreateQuota_ledger_ok:
  assumes "ledger_ok (store s)"
  shows "ledger_ok (store (snd (CreateQuota u req qu au now s)))"
proof (cases "store (snd (CreateQuota u req qu au now s)) = store s")
  case True
  with assms show ?thesis by simp
next
  case False
  with CreateQuota_committed [of u req qu au now s] obtain db1 where
    "insert_quota (root_quota u req (''quota_'' @ qu) now) (store s) = Some db1"
    "insert_audit (audit_entry au (''quota_'' @ qu) ''create'' (user_UserID u)
        (create_details req) now) db1 = Some (store (snd (CreateQuota u req qu au now s)))"
    by blast
  with assms show ?thesis
    using insert_root_ok [of "store s" "root_quota u req (''quota_'' @ qu) now" db1] insert_audit_ok
    by simp
qed

lemma AllocateUsage_ledger_ok:
  assumes "ledger_ok (store s)"
  shows "ledger_ok (store (snd (AllocateUsage ac u i req uu au now s)))"
proof (cases "store (snd (AllocateUsage ac u i req uu au now s)) = store s")
  case True
  with assms show ?thesis by simp
next
  case False
  with AllocateUsage_committed [of ac u i req uu au now s] assms show ?thesis
    using set_used_plus_ok insert_usage_ok insert_audit_ok by blast
qed

lemma DeallocateUsage_ledger_ok:
  assumes "ledger_ok (store s)"
  shows "ledger_ok (store (snd (DeallocateUsage ac u i req uu au now s)))"
proof (cases "store (snd (DeallocateUsage ac u i req uu au now s)) = store s")
  case True
  with assms show ?thesis by simp
next
  case False
  with DeallocateUsage_committed [of ac u i req uu au now s] assms show ?thesis
    using set_used_minus_ok insert_usage_ok insert_audit_ok by blast
qed

lemma ReleaseQuota_ledger_ok:
  assumes "ledger_ok (store s)"
  shows "ledger_ok (store (snd (ReleaseQuota ac u i au now s)))"
proof (cases "store (snd (ReleaseQuota ac u i au now s)) = store s")
  case True
  with assms show ?thesis by simp
next
  case False
  with ReleaseQuota_committed [of ac u i au now s] assms show ?thesis
    using release_pair_ok insert_audit_ok by blast
qed

lemma AllocateQuota_ledger_ok:
  assumes "ledger_ok (store s)"
  shows "ledger_ok (store (snd (AllocateQuota ac u pid req qu au now s)))"
proof (cases "store (snd (AllocateQuota ac u pid req qu au now s)) = store s")
  case True
  with assms show ?thesis by simp
next
  case False
  with AllocateQuota_committed [of ac u pid req qu au now s] obtain p db1 db2 where
    ins: "insert_quota (child_quota p pid req (''quota_'' @ qu) now) (store s) = Some db1" and
    upd: "update_quota pid (set_allocated_plus (alloc_AllocateMB req) now) db1 = Some db2" and
    aud: "insert_audit (audit_entry au (''quota_'' @ qu) ''allocate'' (user_UserID u)
        (allocate_details pid req) now) db2
        = Some (store (snd (AllocateQuota ac u pid req qu au now s)))"
    by blast
  have "ledger_ok db2"
    using assms ins upd
    by (rule allocate_pair_ok) (simp_all add: QuotaStatusActive_def QuotaStatusDeleted_def)
  with aud show ?thesis by (rule insert_audit_ok)
qed

lemma reachable_ledger_ok: "reachable s \<Longrightarrow> ledger_ok (store s)"
proof (induction rule: reachable.induct)
  case initial
  show ?case
    by (simp add: ledger_ok_def empty_db_def pk_ok_def checks_ok_def fk_ok_def alloc_ok_def)
next
  case (create s s' userInfo creq quotaUuid auditUuid now)
  then show ?case by (simp add: CreateQuota_ledger_ok)
next
  case (allocate s s' ac userInfo parentQuotaID areq quotaUuid auditUuid now)
  then show ?case by (simp add: AllocateQuota_ledger_ok)
next
  case (release s s' ac userInfo quotaID auditUuid now)
  then show ?case by (simp add: ReleaseQuota_ledger_ok)
next
  case (allocate_usage s s' ac userInfo quotaID ureq usageUuid auditUuid now)
  then show ?case by (simp add: AllocateUsage_ledger_ok)
next
  case (deallocate_usage s s' ac userInfo quotaID ureq usageUuid auditUuid now)
  then show ?case by (simp add: DeallocateUsage_ledger_ok)
next
  case (get s s' ac userInfo quotaID)
  then show ?case by (simp add: GetQuota_store)
qed

text \<open>
  Claim C1. In every state the system can reach from the empty database by calls of the
  service functions (each either rolled back or committed), every node of the ledger has
  \<open>used + allocated \<le> total\<close>, and its \<open>allocated\<close> is the sum of \<open>total\<close> over its direct
  children that are not deleted.
\<close>

theorem C1_ledger_invariants:
  "reachable s \<Longrightarrow>
     \<forall>q\<in>set (quotas (store s)).
       sint (UsedMB q) + sint (AllocatedMB q) \<le> sint (TotalMB q) \<and>
       sint (AllocatedMB q) = children_total (quotas (store s)) (ID q)"
proof -
  assume "reachable s"
  then have "ledger_ok (store s)" by (rule reachable_ledger_ok)
  then show ?thesis
    by (auto simp: ledger_ok_def checks_ok_def alloc_ok_def list_all_iff quotas_check_def)
qed

lemma ex_sys1_store:
  "store ex_sys1 = \<lparr>quotas = [ex_root\<lparr>UpdatedAt := 1\<rparr>], quota_usage = [],
     quota_audit_logs = [audit_entry ''a1'' ''quota_r'' ''create'' ''alice''
        [(''name'', JString ''root''), (''type'', JString ''organization''),
         (''total_mb'', JNumber 10000)] 1]\<rparr>"
  by (simp add: ex_sys1_def CreateQuota_eq ex_create_def empty_db_def ex_user_def
      QuotaTypeOrganization_def QuotaTypeTeam_def insert_quota_def insert_audit_def
      quotas_check_def root_quota_def QuotaStatusActive_def audit_entry_def generated_def ex_root_def)

lemma ex_sys2_quotas:
  "map (\<lambda>q. (ID q, sint (TotalMB q), sint (UsedMB q), sint (AllocatedMB q))) (quotas (store ex_sys2))
     = [(''quota_r'', 10000, 0, 2000), (''quota_c'', 2000, 0, 0)]"
  by (simp add: ex_sys2_def AllocateQuota_eq ex_sys1_store ex_allow_def ex_alloc_def ex_root_def
      ex_user_def live_def QuotaStatusDeleted_def validateAllocationRules_def
      QuotaTypeOrganization_def QuotaTypeTeam_def insert_quota_def quotas_check_def
      child_quota_def determineTeamID_def QuotaStatusActive_def update_quota_def
      set_allocated_plus_def bigint_ok_def generated_def insert_audit_def audit_entry_def)

theorem C1_ledger_invariants_witness:
  "reachable ex_sys2 \<and>
   map (\<lambda>q. (ID q, sint (TotalMB q), sint (UsedMB q), sint (AllocatedMB q))) (quotas (store ex_sys2))
     = [(''quota_r'', 10000, 0, 2000), (''quota_c'', 2000, 0, 0)] \<and>
   list_all (\<lambda>q. sint (UsedMB q) + sint (AllocatedMB q) \<le> sint (TotalMB q) \<and>
       sint (AllocatedMB q) = children_total (quotas (store ex_sys2)) (ID q)) (quotas (store ex_sys2))"
proof -
  have r: "reachable ex_sys2"
    unfolding ex_sys2_def ex_sys1_def
    by (rule reachable.allocate [OF reachable.create [OF reachable.initial refl] refl])
  from C1_ledger_invariants [OF r] ex_sys2_quotas r show ?thesis
    by (simp only: list_all_iff)
qed

section \<open>Audit trail and usage journal are written atomically\<close>

lemma insert_audit_tables:
  "insert_audit e db = Some db' \<Longrightarrow>
     quotas db' = quotas db \<and> quota_usage db' = quota_usage db \<and>
     quota_audit_logs db' = quota_audit_logs db @ [e]"
  by (auto simp: insert_audit_Some)

lemma insert_usage_tables:
  "insert_usage e db = Some db' \<Longrightarrow>
     quotas db' = quotas db \<and> quota_usage db' = quota_usage db @ [e] \<and>
     quota_audit_logs db' = quota_audit_logs db"
  by (auto simp: insert_usage_Some)

lemma insert_quota_tables:
  "insert_quota c db = Some db' \<Longrightarrow>
     quotas db' = quotas db @ [generated c] \<and> quota_usage db' = quota_usage db \<and>
     quota_audit_logs db' = quota_audit_logs db"
  by (auto simp: insert_quota_Some)

lemma update_quota_tables:
  "update_quota i f db = Some db' \<Longrightarrow>
     quota_usage db' = quota_usage db \<and> quota_audit_logs db' = quota_audit_logs db"
  by (auto simp: update_quota_Some)

lemma release_parent_tables:
  "(case po of None \<Rightarrow> Some db | Some p \<Rightarrow> update_quota p f db) = Some db' \<Longrightarrow>
     quota_usage db' = quota_usage db \<and> quota_audit_logs db' = quota_audit_logs db"
  by (auto simp: update_quota_Some split: option.splits)

text \<open>
  Claim C5. Each of the five functions that change capacity leaves the database either
  exactly as it was, or with its whole transaction in it: the mutation of table
  \<open>quotas\<close>, the audit entry appended to the audit trail and, for the two usage
  functions, the record appended to the usage journal. A call that returns an error
  leaves the database as it was.
\<close>

theorem C5_audit_and_journal_atomic:
  "(isl (fst (CreateQuota u creq qu au now s)) \<longrightarrow>
      store (snd (CreateQuota u creq qu au now s)) = store s) \<and>
   (store (snd (CreateQuota u creq qu au now s)) \<noteq> store s \<longrightarrow>
      quotas (store (snd (CreateQuota u creq qu au now s)))
        = quotas (store s) @ [generated (root_quota u creq (''quota_'' @ qu) now)] \<and>
      quota_audit_logs (store (snd (CreateQuota u creq qu au now s)))
        = quota_audit_logs (store s) @
            [audit_entry au (''quota_'' @ qu) ''create'' (user_UserID u) (create_details creq) now] \<and>
      quota_usage (store (snd (CreateQuota u creq qu au now s))) = quota_usage (store s)) \<and>
   (isl (fst (AllocateQuota ac u i areq qu au now s)) \<longrightarrow>
      store (snd (AllocateQuota ac u i areq qu au now s)) = store s) \<and>
   (store (snd (AllocateQuota ac u i areq qu au now s)) \<noteq> store s \<longrightarrow>
      (\<exists>p db1 db2. find (live i) (quotas (store s)) = Some p \<and>
         insert_quota (child_quota p i areq (''quota_'' @ qu) now) (store s) = Some db1 \<and>
         update_quota i (set_allocated_plus (alloc_AllocateMB areq) now) db1 = Some db2 \<and>
         quotas (store (snd (AllocateQuota ac u i areq qu au now s))) = quotas db2) \<and>
      quota_audit_logs (store (snd (AllocateQuota ac u i areq qu au now s)))
        = quota_audit_logs (store s) @
            [audit_entry au (''quota_'' @ qu) ''allocate'' (user_UserID u) (allocate_details i areq) now] \<and>
      quota_usage (store (snd (AllocateQuota ac u i areq qu au now s))) = quota_usage (store s)) \<and>
   (isl (fst (ReleaseQuota ac u i au now s)) \<longrightarrow>
      store (snd (ReleaseQuota ac u i au now s)) = store s) \<and>
   (store (snd (ReleaseQuota ac u i au now s)) \<noteq> store s \<longrightarrow>
      (\<exists>q db1 db2. find (live i) (quotas (store s)) = Some q \<and>
         (case ParentQuotaID q of None \<Rightarrow> Some (store s)
          | Some p \<Rightarrow> update_quota p (set_allocated_minus (TotalMB q) now) (store s)) = Some db1 \<and>
         update_quota i (set_deleted now) db1 = Some db2 \<and>
         quotas (store (snd (ReleaseQuota ac u i au now s))) = quotas db2 \<and>
         quota_audit_logs (store (snd (ReleaseQuota ac u i au now s)))
           = quota_audit_logs (store s) @
               [audit_entry au i ''release'' (user_UserID u) (release_details q) now]) \<and>
      quota_usage (store (snd (ReleaseQuota ac u i au now s))) = quota_usage (store s)) \<and>
   (isl (fst (AllocateUsage ac u i ureq uu au now s)) \<longrightarrow>
      store (snd (AllocateUsage ac u i ureq uu au now s)) = store s) \<and>
   (store (snd (AllocateUsage ac u i ureq uu au now s)) \<noteq> store s \<longrightarrow>
      (\<exists>db1. update_quota i (set_used_plus (req_UsageMB ureq) now) (store s) = Some db1 \<and>
         quotas (store (snd (AllocateUsage ac u i ureq uu au now s))) = quotas db1) \<and>
      quota_usage (store (snd (AllocateUsage ac u i ureq uu au now s)))
        = quota_usage (store s) @ [usage_entry uu i u ureq OperationAllocate now] \<and>
      quota_audit_logs (store (snd (AllocateUsage ac u i ureq uu au now s)))
        = quota_audit_logs (store s) @
            [audit_entry au i ''usage_allocate'' (user_UserID u) (usage_details ureq) now]) \<and>
   (isl (fst (DeallocateUsage ac u i ureq uu au now s)) \<longrightarrow>
      store (snd (DeallocateUsage ac u i ureq uu au now s)) = store s) \<and>
   (store (snd (DeallocateUsage ac u i ureq uu au now s)) \<noteq> store s \<longrightarrow>
      (\<exists>db1. update_quota i (set_used_minus (req_UsageMB ureq) now) (store s) = Some db1 \<and>
         quotas (store (snd (DeallocateUsage ac u i ureq uu au now s))) = quotas db1) \<and>
      quota_usage (store (snd (DeallocateUsage ac u i ureq uu au now s)))
        = quota_usage (store s) @ [usage_entry uu i u ureq OperationDeallocate now] \<and>
      quota_audit_logs (store (snd (DeallocateUsage ac u i ureq uu au now s)))
        = quota_audit_logs (store s) @
            [audit_entry au i ''usage_deallocate'' (user_UserID u) (usage_details ureq) now])"
proof -
  have c: "store (snd (CreateQuota u creq qu au now s)) \<noteq> store s \<Longrightarrow>
      quotas (store (snd (CreateQuota u creq qu au now s)))
        = quotas (store s) @ [generated (root_quota u creq (''quota_'' @ qu) now)] \<and>
      quota_audit_logs (store (snd (CreateQuota u creq qu au now s)))
        = quota_audit_logs (store s) @
            [audit_entry au (''quota_'' @ qu) ''create'' (user_UserID u) (create_details creq) now] \<and>
      quota_usage (store (snd (CreateQuota u creq qu au now s))) = quota_usage (store s)"
    using CreateQuota_committed [of u creq qu au now s]
    by (auto dest!: insert_audit_tables insert_quota_tables)
  have a: "store (snd (AllocateQuota ac u i areq qu au now s)) \<noteq> store s \<Longrightarrow>
      (\<exists>p db1 db2. find (live i) (quotas (store s)) = Some p \<and>
         insert_quota (child_quota p i areq (''quota_'' @ qu) now) (store s) = Some db1 \<and>
         update_quota i (set_allocated_plus (alloc_AllocateMB areq) now) db1 = Some db2 \<and>
         quotas (store (snd (AllocateQuota ac u i areq qu au now s))) = quotas db2) \<and>
      quota_audit_logs (store (snd (AllocateQuota ac u i areq qu au now s)))
        = quota_audit_logs (store s) @
            [audit_entry au (''quota_'' @ qu) ''allocate'' (user_UserID u) (allocate_details i areq) now] \<and>
      quota_usage (store (snd (AllocateQuota ac u i areq qu au now s))) = quota_usage (store s)"
  proof -
    assume "store (snd (AllocateQuota ac u i areq qu au now s)) \<noteq> store s"
    with AllocateQuota_committed [of ac u i areq qu au now s] obtain p db1 db2 where
      f: "find (live i) (quotas (store s)) = Some p" and
      ins: "insert_quota (child_quota p i areq (''quota_'' @ qu) now) (store s) = Some db1" and
      upd: "update_quota i (set_allocated_plus (alloc_AllocateMB areq) now) db1 = Some db2" and
      aud: "insert_audit (audit_entry au (''quota_'' @ qu) ''allocate'' (user_UserID u)
        (allocate_details i areq) now) db2
        = Some (store (snd (AllocateQuota ac u i areq qu au now s)))"
      by blast
    from insert_quota_tables [OF ins] update_quota_tables [OF upd] insert_audit_tables [OF aud]
      f ins upd
    show ?thesis by auto
  qed
  have r: "store (snd (ReleaseQuota ac u i au now s)) \<noteq> store s \<Longrightarrow>
      (\<exists>q db1 db2. find (live i) (quotas (store s)) = Some q \<and>
         (case ParentQuotaID q of None \<Rightarrow> Some (store s)
          | Some p \<Rightarrow> update_quota p (set_allocated_minus (TotalMB q) now) (store s)) = Some db1 \<and>
         update_quota i (set_deleted now) db1 = Some db2 \<and>
         quotas (store (snd (ReleaseQuota ac u i au now s))) = quotas db2 \<and>
         quota_audit_logs (store (snd (ReleaseQuota ac u i au now s)))
           = quota_audit_logs (store s) @
               [audit_entry au i ''release'' (user_UserID u) (release_details q) now]) \<and>
      quota_usage (store (snd (ReleaseQuota ac u i au now s))) = quota_usage (store s)"
  proof -
    assume "store (snd (ReleaseQuota ac u i au now s)) \<noteq> store s"
    with ReleaseQuota_committed [of ac u i au now s] obtain q db1 db2 where
      f: "find (live i) (quotas (store s)) = Some q" and
      par: "(case ParentQuotaID q of None \<Rightarrow> Some (store s)
          | Some p \<Rightarrow> update_quota p (set_allocated_minus (TotalMB q) now) (store s)) = Some db1" and
      del: "update_quota i (set_deleted now) db1 = Some db2" and
      aud: "insert_audit (audit_entry au i ''release'' (user_UserID u) (release_details q) now) db2
        = Some (store (snd (ReleaseQuota ac u i au now s)))"
      by blast
    from release_parent_tables [OF par] update_quota_tables [OF del] insert_audit_tables [OF aud]
      f par del
    show ?thesis by auto
  qed
  have au: "store (snd (AllocateUsage ac u i ureq uu au now s)) \<noteq> store s \<Longrightarrow>
      (\<exists>db1. update_quota i (set_used_plus (req_UsageMB ureq) now) (store s) = Some db1 \<and>
         quotas (store (snd (AllocateUsage ac u i ureq uu au now s))) = quotas db1) \<and>
      quota_usage (store (snd (AllocateUsage ac u i ureq uu au now s)))
        = quota_usage (store s) @ [usage_entry uu i u ureq OperationAllocate now] \<and>
      quota_audit_logs (store (snd (AllocateUsage ac u i ureq uu au now s)))
        = quota_audit_logs (store s) @
            [audit_entry au i ''usage_allocate'' (user_UserID u) (usage_details ureq) now]"
  proof -
    assume "store (snd (AllocateUsage ac u i ureq uu au now s)) \<noteq> store s"
    with AllocateUsage_committed [of ac u i ureq uu au now s] obtain db1 db2 where
      upd: "update_quota i (set_used_plus (req_UsageMB ureq) now) (store s) = Some db1" and
      us: "insert_usage (usage_entry uu i u ureq OperationAllocate now) db1 = Some db2" and
      aud: "insert_audit (audit_entry au i ''usage_allocate'' (user_UserID u) (usage_details ureq) now) db2
        = Some (store (snd (AllocateUsage ac u i ureq uu au now s)))"
      by blast
    from update_quota_tables [OF upd] insert_usage_tables [OF us] insert_audit_tables [OF aud] upd
    show ?thesis by auto
  qed
  have du: "store (snd (DeallocateUsage ac u i ureq uu au now s)) \<noteq> store s \<Longrightarrow>
      (\<exists>db1. update_quota i (set_used_minus (req_UsageMB ureq) now) (store s) = Some db1 \<and>
         quotas (store (snd (DeallocateUsage ac u i ureq uu au now s))) = quotas db1) \<and>
      quota_usage (store (snd (DeallocateUsage ac u i ureq uu au now s)))
        = quota_usage (store s) @ [usage_entry uu i u ureq OperationDeallocate now] \<and>
      quota_audit_logs (store (snd (DeallocateUsage ac u i ureq uu au now s)))
        = quota_audit_logs (store s) @
            [audit_entry au i ''usage_deallocate'' (user_UserID u) (usage_details ureq) now]"
  proof -
    assume "store (snd (DeallocateUsage ac u i ureq uu au now s)) \<noteq> store s"
    with DeallocateUsage_committed [of ac u i ureq uu au now s] obtain db1 db2 where
      upd: "update_quota i (set_used_minus (req_UsageMB ureq) now) (store s) = Some db1" and
      us: "insert_usage (usage_entry uu i u ureq OperationDeallocate now) db1 = Some db2" and
      aud: "insert_audit (audit_entry au i ''usage_deallocate'' (user_UserID u) (usage_details ureq) now) db2
        = Some (store (snd (DeallocateUsage ac u i ureq uu au now s)))"
      by blast
    from update_quota_tables [OF upd] insert_usage_tables [OF us] insert_audit_tables [OF aud] upd
    show ?thesis by auto
  qed
  from c a r au du
    failed_store(1) [of u creq qu au now s] failed_store(2) [of ac u i areq qu au now s]
    failed_store(3) [of ac u i au now s] failed_store(4) [of ac u i ureq uu au now s]
    failed_store(5) [of ac u i ureq uu au now s]
  show ?thesis by blast
qed

lemmas ex_eval =
  ex_allow_def ex_user_def ex_root_sys_def ex_root_def ex_usage_def ex_alloc_def ex_create_def
  live_def QuotaStatusDeleted_def QuotaStatusActive_def QuotaTypeOrganization_def QuotaTypeTeam_def
  QuotaPermissionAdmin_def QuotaPermissionRead_def OperationAllocate_def OperationDeallocate_def
  insert_quota_def insert_usage_def insert_audit_def update_quota_def quotas_check_def
  generated_def bigint_ok_def set_used_plus_def set_used_minus_def set_allocated_plus_def
  set_allocated_minus_def set_deleted_def audit_entry_def usage_entry_def usage_details_def
  root_quota_def child_quota_def determineTeamID_def validateAllocationRules_def empty_db_def

theorem C5_audit_and_journal_atomic_witness:
  "quota_usage (store (snd (AllocateUsage ex_allow ex_user ''quota_r'' ex_usage ''u1'' ''a1'' 2 ex_root_sys)))
     = [usage_entry ''u1'' ''quota_r'' ex_user ex_usage OperationAllocate 2] \<and>
   quota_audit_logs (store (snd (AllocateUsage ex_allow ex_user ''quota_r'' ex_usage ''u1'' ''a1'' 2 ex_root_sys)))
     = [audit_entry ''a1'' ''quota_r'' ''usage_allocate'' ''alice'' (usage_details ex_usage) 2] \<and>
   store (snd (DeallocateUsage ex_allow ex_user ''quota_r'' ex_usage ''u1'' ''a1'' 2 ex_root_sys))
     = store ex_root_sys"
proof -
  have ne: "store (snd (AllocateUsage ex_allow ex_user ''quota_r'' ex_usage ''u1'' ''a1'' 2 ex_root_sys))
      \<noteq> store ex_root_sys"
    by (simp add: AllocateUsage_eq ex_eval)
  have fl: "isl (fst (DeallocateUsage ex_allow ex_user ''quota_r'' ex_usage ''u1'' ''a1'' 2 ex_root_sys))"
    by (simp add: DeallocateUsage_eq ex_eval)
  from ne fl
    C5_audit_and_journal_atomic [of ex_user ex_create "''u1''" "''a1''" 2 ex_root_sys ex_allow
      "''quota_r''" ex_alloc ex_usage "''u1''"]
  show ?thesis
    by (simp add: ex_user_def ex_root_sys_def)
qed

text \<open>
  The swallowed error of the audit write: when the INSERT fails (here the generated
  audit id is already in use), the function still returns nil, the warning is logged,
  and the COMMIT of the failed transaction rolls everything back.
\<close>

lemma failed_audit_write_rolls_back:
  "fst (AllocateUsage ex_allow ex_user ''quota_r'' ex_usage ''u1'' ''a1'' 2 ex_audited_sys) = Inr () \<and>
   store (snd (AllocateUsage ex_allow ex_user ''quota_r'' ex_usage ''u1'' ''a1'' 2 ex_audited_sys))
     = store ex_audited_sys \<and>
   logged (snd (AllocateUsage ex_allow ex_user ''quota_r'' ex_usage ''u1'' ''a1'' 2 ex_audited_sys))
     = [''Failed to create audit log'']"
  by (simp add: AllocateUsage_eq ex_audited_sys_def ex_eval)

section \<open>The usage round trip\<close>



lemma find_live_in:
  "find (live i) rs = Some q \<Longrightarrow> q \<in> set rs \<and> ID q = i \<and> Status q \<noteq> QuotaStatusDeleted"
  by (auto simp: find_Some_iff live_def)

lemma insert_audit_fresh:
  "audit_ID e \<notin> set (map audit_ID (quota_audit_logs db)) \<Longrightarrow>
   audit_QuotaID e \<in> set (map ID (quotas db)) \<Longrightarrow>
   insert_audit e db = Some (db\<lparr>quota_audit_logs := quota_audit_logs db @ [e]\<rparr>)"
  by (simp add: insert_audit_def)

lemma insert_usage_fresh:
  "usage_ID e \<notin> set (map usage_ID (quota_usage db)) \<Longrightarrow>
   usage_QuotaID e \<in> set (map ID (quotas db)) \<Longrightarrow> 0 < sint (usage_UsageMB e) \<Longrightarrow>
   usage_Operation e = ''allocate'' \<or> usage_Operation e = ''deallocate'' \<Longrightarrow>
   insert_usage e db = Some (db\<lparr>quota_usage := quota_usage db @ [e]\<rparr>)"
  by (simp add: insert_usage_def)

lemma audit_entry_simps [simp]:
  "audit_ID (audit_entry uu q act actor det now) = ''audit_'' @ uu"
  "audit_QuotaID (audit_entry uu q act actor det now) = q"
  "audit_ActionType (audit_entry uu q act actor det now) = act"
  by (simp_all add: audit_entry_def)

lemma usage_entry_simps [simp]:
  "usage_ID (usage_entry uu q u req op now) = ''usage_'' @ uu"
  "usage_QuotaID (usage_entry uu q u req op now) = q"
  "usage_UsageMB (usage_entry uu q u req op now) = req_UsageMB req"
  "usage_Operation (usage_entry uu q u req op now) = op"
  by (simp_all add: usage_entry_def)

text \<open>The row that \<open>UPDATE quotas SET used_mb = used_mb - n\<close> leaves.\<close>

lemma used_less_simps [simp]:
  "ID (used_less n now r) = ID r" "Status (used_less n now r) = Status r"
  "TotalMB (used_less n now r) = TotalMB r" "AllocatedMB (used_less n now r) = AllocatedMB r"
  "UsedMB (used_less n now r) = UsedMB r - n" "ParentQuotaID (used_less n now r) = ParentQuotaID r"
  by (simp_all add: used_less_def generated_def)

lemma used_more_simps [simp]:
  "ID (used_more n now r) = ID r" "Status (used_more n now r) = Status r"
  "TotalMB (used_more n now r) = TotalMB r" "AllocatedMB (used_more n now r) = AllocatedMB r"
  "UsedMB (used_more n now r) = UsedMB r + n" "ParentQuotaID (used_more n now r) = ParentQuotaID r"
  by (simp_all add: used_more_def generated_def)











lemma ex_usage_sys:
  "AllocateUsage ex_allow ex_user ''quota_r'' ex_usage ''u1'' ''a1'' 2 ex_root_sys =
    (Inr (), \<lparr>store = \<lparr>quotas = [used_more 100 2 ex_root],
        quota_usage = [usage_entry ''u1'' ''quota_r'' ex_user ex_usage OperationAllocate 2],
        quota_audit_logs = [audit_entry ''a1'' ''quota_r'' ''usage_allocate'' ''alice''
           (usage_details ex_usage) 2]\<rparr>,
      sent = [CheckPermissionCall ex_user ''quota_r'' [QuotaPermissionRead]], logged = []\<rparr>)"
  by (simp add: AllocateUsage_eq used_more_def ex_eval)


section \<open>Release\<close>

text \<open>The rows that the two UPDATE statements of \<open>ReleaseQuota\<close> leave.\<close>

text \<open>The row that the UPDATE statement of \<open>AllocateQuota\<close> leaves.\<close>

lemma returned_simps [simp]:
  "ID (returned n now r) = ID r" "Status (returned n now r) = Status r"
  "TotalMB (returned n now r) = TotalMB r" "UsedMB (returned n now r) = UsedMB r"
  "AllocatedMB (returned n now r) = AllocatedMB r - n"
  "ParentQuotaID (returned n now r) = ParentQuotaID r"
  "AvailableMB (returned n now r) = TotalMB r - UsedMB r - (AllocatedMB r - n)"
  "DeletedAt (returned n now r) = DeletedAt r"
  by (simp_all add: returned_def generated_def)

lemma deleted_row_simps [simp]:
  "ID (deleted_row now r) = ID r" "Status (deleted_row now r) = QuotaStatusDeleted"
  "TotalMB (deleted_row now r) = TotalMB r" "UsedMB (deleted_row now r) = UsedMB r"
  "AllocatedMB (deleted_row now r) = AllocatedMB r"
  "ParentQuotaID (deleted_row now r) = ParentQuotaID r"
  "AvailableMB (deleted_row now r) = TotalMB r - UsedMB r - AllocatedMB r"
  "DeletedAt (deleted_row now r) = Some now"
  by (simp_all add: deleted_row_def generated_def)

lemma allocated_more_simps [simp]:
  "ID (allocated_more n now r) = ID r" "Status (allocated_more n now r) = Status r"
  "TotalMB (allocated_more n now r) = TotalMB r" "UsedMB (allocated_more n now r) = UsedMB r"
  "AllocatedMB (allocated_more n now r) = AllocatedMB r + n"
  "ParentQuotaID (allocated_more n now r) = ParentQuotaID r"
  "DeletedAt (allocated_more n now r) = DeletedAt r"
  by (simp_all add: allocated_more_def generated_def)











lemma ReleaseQuota_busy_iff:
  assumes perm: "CheckPermission ac u i [QuotaPermissionAdmin] = Inr True"
    and f: "find (live i) (quotas (store s)) = Some q"
  shows "fst (ReleaseQuota ac u i au now s) = Inl BusyResource \<longleftrightarrow>
           0 < sint (UsedMB q) \<or> 0 < sint (AllocatedMB q)"
  using perm f by (simp add: ReleaseQuota_eq split: option.split)













lemma ex_sys2_parent:
  "\<exists>r. quota_row (store ex_sys2) ''quota_r'' = Some r \<and> TotalMB r = 10000 \<and> UsedMB r = 0 \<and>
       AllocatedMB r = 2000"
  by (simp add: ex_sys2_def AllocateQuota_eq ex_sys1_store allocate_details_def quota_row_def ex_eval)


section \<open>Lookups and suspended nodes\<close>

lemma suspend_fields:
  "ID (suspend j r) = ID r" "Name (suspend j r) = Name r" "Description (suspend j r) = Description r"
  "Type (suspend j r) = Type r" "TotalMB (suspend j r) = TotalMB r" "UsedMB (suspend j r) = UsedMB r"
  "AllocatedMB (suspend j r) = AllocatedMB r" "AvailableMB (suspend j r) = AvailableMB r"
  "ParentQuotaID (suspend j r) = ParentQuotaID r" "Level (suspend j r) = Level r"
  "Path (suspend j r) = Path r" "OwnerID (suspend j r) = OwnerID r"
  "OrganizationID (suspend j r) = OrganizationID r" "TeamID (suspend j r) = TeamID r"
  "CreatedAt (suspend j r) = CreatedAt r" "UpdatedAt (suspend j r) = UpdatedAt r"
  "DeletedAt (suspend j r) = DeletedAt r"
  by (simp_all add: suspend_def)

lemma suspend_status:
  "Status (suspend j r) = QuotaStatusDeleted \<longleftrightarrow> Status r = QuotaStatusDeleted"
  by (simp add: suspend_def QuotaStatusDeleted_def QuotaStatusActive_def QuotaStatusSuspended_def)

lemma suspend_live: "live i (suspend j r) = live i r"
  by (simp add: live_def suspend_fields suspend_status)

lemma suspend_check: "quotas_check (suspend j r) = quotas_check r"
  by (auto simp: quotas_check_def suspend_def QuotaStatusActive_def QuotaStatusSuspended_def)

lemma suspend_generated: "generated (suspend j r) = suspend j (generated r)"
  by (simp add: generated_def suspend_def)

lemma suspend_sets:
  "set_used_plus n now (suspend j r) = map_option (suspend j) (set_used_plus n now r)"
  "set_used_minus n now (suspend j r) = map_option (suspend j) (set_used_minus n now r)"
  "set_allocated_plus n now (suspend j r) = map_option (suspend j) (set_allocated_plus n now r)"
  "set_allocated_minus n now (suspend j r) = map_option (suspend j) (set_allocated_minus n now r)"
  "set_deleted now (suspend j r) = map_option (suspend j) (set_deleted now r)"
  by (simp_all add: set_used_plus_def set_used_minus_def set_allocated_plus_def
      set_allocated_minus_def set_deleted_def suspend_def QuotaStatusDeleted_def
      QuotaStatusActive_def QuotaStatusSuspended_def)

lemma suspend_find:
  "find (live i) (map (suspend j) rs) = map_option (suspend j) (find (live i) rs)"
  by (induction rs) (simp_all add: suspend_live)

lemma suspend_ids: "map ID (map (suspend j) rs) = map ID rs"
  by (simp add: suspend_fields)

lemma suspend_update_rows:
  assumes "\<And>r. f (suspend j r) = map_option (suspend j) (f r)"
  shows "update_rows i f (map (suspend j) rs) = map_option (map (suspend j)) (update_rows i f rs)"
proof (induction rs)
  case Nil
  show ?case by simp
next
  case (Cons r rs)
  show ?case
    by (cases "f r"; cases "update_rows i f rs")
       (simp_all add: Cons assms suspend_fields suspend_check suspend_generated)
qed

lemma suspend_update_quota:
  assumes "\<And>r. f (suspend j r) = map_option (suspend j) (f r)"
  shows "update_quota i f (suspend_db j db) = map_option (suspend_db j) (update_quota i f db)"
  by (simp add: update_quota_def suspend_db_def suspend_update_rows [of f, OF assms]
      split: option.split)

lemmas suspend_updates =
  suspend_update_quota [of "set_used_plus n now" for n now, OF suspend_sets(1)]
  suspend_update_quota [of "set_used_minus n now" for n now, OF suspend_sets(2)]
  suspend_update_quota [of "set_allocated_plus n now" for n now, OF suspend_sets(3)]
  suspend_update_quota [of "set_allocated_minus n now" for n now, OF suspend_sets(4)]
  suspend_update_quota [of "set_deleted now" for now, OF suspend_sets(5)]

lemma suspend_db_ids: "map ID (quotas (suspend_db j db)) = map ID (quotas db)"
  by (simp add: suspend_db_def suspend_fields)

lemma suspend_insert_audit:
  "insert_audit e (suspend_db j db) = map_option (suspend_db j) (insert_audit e db)"
  unfolding insert_audit_def suspend_db_ids by (simp add: suspend_db_def)

lemma suspend_insert_usage:
  "insert_usage e (suspend_db j db) = map_option (suspend_db j) (insert_usage e db)"
  unfolding insert_usage_def suspend_db_ids by (simp add: suspend_db_def)

lemma suspend_insert_quota:
  "ID c \<noteq> j \<Longrightarrow> insert_quota c (suspend_db j db) = map_option (suspend_db j) (insert_quota c db)"
  unfolding insert_quota_def suspend_db_ids by (simp add: suspend_db_def suspend_def)

lemma suspend_db_quotas: "quotas (suspend_db j db) = map (suspend j) (quotas db)"
  "quota_usage (suspend_db j db) = quota_usage db"
  "quota_audit_logs (suspend_db j db) = quota_audit_logs db"
  by (simp_all add: suspend_db_def)

lemma suspend_sys_simps:
  "store (suspend_sys j s) = suspend_db j (store s)" "sent (suspend_sys j s) = sent s"
  "logged (suspend_sys j s) = logged s"
  by (simp_all add: suspend_sys_def)

lemma suspend_rules:
  "validateAllocationRules (suspend j p) req = validateAllocationRules p req"
  "child_quota (suspend j p) pid req cid now = child_quota p pid req cid now"
  by (simp_all add: validateAllocationRules_def child_quota_def determineTeamID_def suspend_fields)

lemma suspend_AllocateUsage:
  "AllocateUsage ac u i req uu au now (suspend_sys j s) =
     (fst (AllocateUsage ac u i req uu au now s),
      suspend_sys j (snd (AllocateUsage ac u i req uu au now s)))"
  by (simp add: AllocateUsage_eq suspend_sys_simps suspend_db_quotas suspend_find suspend_fields
      suspend_updates suspend_insert_usage suspend_insert_audit asked_def suspend_sys_def
      split: sum.split option.split)

lemma suspend_DeallocateUsage:
  "DeallocateUsage ac u i req uu au now (suspend_sys j s) =
     (fst (DeallocateUsage ac u i req uu au now s),
      suspend_sys j (snd (DeallocateUsage ac u i req uu au now s)))"
  by (simp add: DeallocateUsage_eq suspend_sys_simps suspend_db_quotas suspend_find suspend_fields
      suspend_updates suspend_insert_usage suspend_insert_audit asked_def suspend_sys_def
      split: sum.split option.split)

lemma suspend_ReleaseQuota:
  "ReleaseQuota ac u i au now (suspend_sys j s) =
     (fst (ReleaseQuota ac u i au now s), suspend_sys j (snd (ReleaseQuota ac u i au now s)))"
  by (simp add: ReleaseQuota_eq suspend_sys_simps suspend_db_quotas suspend_find suspend_fields
      suspend_updates suspend_insert_audit asked_def suspend_sys_def
      split: sum.split option.split)

lemma suspend_AllocateQuota:
  "j \<noteq> ''quota_'' @ qu \<Longrightarrow>
   AllocateQuota ac u pid req qu au now (suspend_sys j s) =
     (fst (AllocateQuota ac u pid req qu au now s),
      suspend_sys j (snd (AllocateQuota ac u pid req qu au now s)))"
  by (simp add: AllocateQuota_eq suspend_sys_simps suspend_db_quotas suspend_find suspend_fields
      suspend_rules suspend_updates suspend_insert_quota suspend_insert_audit asked_def
      suspend_sys_def split: sum.split option.split)

lemma suspend_available:
  "(suspend j q)\<lparr>AvailableMB := a\<rparr> = suspend j (q\<lparr>AvailableMB := a\<rparr>)"
  by (simp add: suspend_def)

lemma suspend_GetQuota:
  "GetQuota ac u i (suspend_sys j s) =
     (map_sum id (suspend j) (fst (GetQuota ac u i s)), suspend_sys j (snd (GetQuota ac u i s)))"
  by (simp add: GetQuota_eq suspend_sys_simps suspend_db_quotas suspend_find suspend_fields
      suspend_available asked_def suspend_sys_def split: sum.split option.split)

lemma suspend_getQuotaForUpdateTx:
  "getQuotaForUpdateTx (tx\<lparr>work := suspend_db j (work tx)\<rparr>) i =
     map_sum id (suspend j) (getQuotaForUpdateTx tx i)"
  by (simp add: getQuotaForUpdateTx_def suspend_db_quotas suspend_find suspend_fields
      suspend_available split: option.split)

lemma find_live_None:
  "find (live i) rs = None \<longleftrightarrow> \<not> list_ex (\<lambda>r. ID r = i \<and> Status r \<noteq> QuotaStatusDeleted) rs"
  by (auto simp add: find_None_iff list_ex_iff live_def)

lemma validateAllocationRules_error:
  "validateAllocationRules p req = Some e \<Longrightarrow> e = HierarchyViolation"
  by (auto simp: validateAllocationRules_def split: if_splits option.splits)

lemma NotFound_getQuotaForUpdateTx:
  "getQuotaForUpdateTx tx i = Inl NotFound \<longleftrightarrow>
     \<not> failed tx \<and>
     \<not> list_ex (\<lambda>r. ID r = i \<and> Status r \<noteq> QuotaStatusDeleted) (quotas (work tx))"
  by (simp add: getQuotaForUpdateTx_def find_live_None [symmetric] split: option.split)

lemma NotFound_GetQuota:
  "fst (GetQuota ac u i s) = Inl NotFound \<longleftrightarrow>
     CheckPermission ac u i [QuotaPermissionRead] = Inr True \<and>
     \<not> list_ex (\<lambda>r. ID r = i \<and> Status r \<noteq> QuotaStatusDeleted) (quotas (store s))"
  by (simp add: GetQuota_eq find_live_None [symmetric] split: sum.split option.split)

lemma NotFound_AllocateUsage:
  "fst (AllocateUsage ac u i req uu au now s) = Inl NotFound \<longleftrightarrow>
     CheckPermission ac u i [QuotaPermissionRead] = Inr True \<and>
     \<not> list_ex (\<lambda>r. ID r = i \<and> Status r \<noteq> QuotaStatusDeleted) (quotas (store s))"
  by (simp add: AllocateUsage_eq find_live_None [symmetric] split: sum.split option.split)

lemma NotFound_DeallocateUsage:
  "fst (DeallocateUsage ac u i req uu au now s) = Inl NotFound \<longleftrightarrow>
     CheckPermission ac u i [QuotaPermissionRead] = Inr True \<and>
     \<not> list_ex (\<lambda>r. ID r = i \<and> Status r \<noteq> QuotaStatusDeleted) (quotas (store s))"
  by (simp add: DeallocateUsage_eq find_live_None [symmetric] split: sum.split option.split)

lemma NotFound_ReleaseQuota:
  "fst (ReleaseQuota ac u i au now s) = Inl NotFound \<longleftrightarrow>
     CheckPermission ac u i [QuotaPermissionAdmin] = Inr True \<and>
     \<not> list_ex (\<lambda>r. ID r = i \<and> Status r \<noteq> QuotaStatusDeleted) (quotas (store s))"
  by (simp add: ReleaseQuota_eq find_live_None [symmetric] split: sum.split option.split)

lemma NotFound_AllocateQuota:
  "fst (AllocateQuota ac u i req qu au now s) = Inl NotFound \<longleftrightarrow>
     CheckPermission ac u i [QuotaPermissionAdmin] = Inr True \<and>
     0 < sint (alloc_AllocateMB req) \<and>
     \<not> list_ex (\<lambda>r. ID r = i \<and> Status r \<noteq> QuotaStatusDeleted) (quotas (store s))"
  by (auto simp add: AllocateQuota_eq find_live_None [symmetric]
      dest: validateAllocationRules_error split: sum.split option.split)

lemma suspended_found:
  "\<not> failed tx \<Longrightarrow> r \<in> set (quotas (work tx)) \<Longrightarrow> ID r = i \<Longrightarrow>
   Status r = QuotaStatusSuspended \<Longrightarrow> \<exists>q. getQuotaForUpdateTx tx i = Inr q \<and> ID q = i"
proof -
  assume nf: "\<not> failed tx" and r: "r \<in> set (quotas (work tx))" "ID r = i"
    "Status r = QuotaStatusSuspended"
  then have "live i r"
    by (simp add: live_def QuotaStatusSuspended_def QuotaStatusDeleted_def)
  with r(1) have "find (live i) (quotas (work tx)) \<noteq> None"
    by (auto simp: find_None_iff)
  then obtain q where q: "find (live i) (quotas (work tx)) = Some q"
    by blast
  then have "ID q = i"
    using find_live_in by blast
  with q nf show ?thesis
    by (simp add: getQuotaForUpdateTx_def)
qed

text \<open>
  Claim C10. The lookup of the transactions (\<open>getQuotaForUpdateTx\<close>) and the read of
  \<open>GetQuota\<close> select the rows whose id is the given one and whose status is not
  \<open>deleted\<close>: in a transaction that has not failed the lookup answers "not found" exactly
  when the table has no such row, and each of \<open>GetQuota\<close>, \<open>AllocateQuota\<close>,
  \<open>ReleaseQuota\<close>, \<open>AllocateUsage\<close> and \<open>DeallocateUsage\<close> returns that error exactly
  when its permission check answered yes (and, for \<open>AllocateQuota\<close>, the request passed
  its validation) and the table has no such row. A row with status \<open>suspended\<close> is
  found. Changing the status of node \<open>j\<close> from \<open>active\<close> to \<open>suspended\<close> before a call
  changes nothing but that status: the lookup and \<open>GetQuota\<close> return the same row with
  the other status, and the four mutating operations return the same result and leave
  the database that the call on the active node leaves, with the status of \<open>j\<close> changed
  in the same way (for \<open>AllocateQuota\<close>, \<open>j\<close> not being the id generated for the child).
\<close>

theorem C10_lookup_excludes_deleted_only:
  "(getQuotaForUpdateTx tx i = Inl NotFound \<longleftrightarrow>
      \<not> failed tx \<and>
      \<not> list_ex (\<lambda>r. ID r = i \<and> Status r \<noteq> QuotaStatusDeleted) (quotas (work tx))) \<and>
   (fst (GetQuota ac u i s) = Inl NotFound \<longleftrightarrow>
      CheckPermission ac u i [QuotaPermissionRead] = Inr True \<and>
      \<not> list_ex (\<lambda>r. ID r = i \<and> Status r \<noteq> QuotaStatusDeleted) (quotas (store s))) \<and>
   (fst (AllocateQuota ac u i areq qu au now s) = Inl NotFound \<longleftrightarrow>
      CheckPermission ac u i [QuotaPermissionAdmin] = Inr True \<and>
      0 < sint (alloc_AllocateMB areq) \<and>
      \<not> list_ex (\<lambda>r. ID r = i \<and> Status r \<noteq> QuotaStatusDeleted) (quotas (store s))) \<and>
   (fst (ReleaseQuota ac u i au now s) = Inl NotFound \<longleftrightarrow>
      CheckPermission ac u i [QuotaPermissionAdmin] = Inr True \<and>
      \<not> list_ex (\<lambda>r. ID r = i \<and> Status r \<noteq> QuotaStatusDeleted) (quotas (store s))) \<and>
   (fst (AllocateUsage ac u i ureq uu au now s) = Inl NotFound \<longleftrightarrow>
      CheckPermission ac u i [QuotaPermissionRead] = Inr True \<and>
      \<not> list_ex (\<lambda>r. ID r = i \<and> Status r \<noteq> QuotaStatusDeleted) (quotas (store s))) \<and>
   (fst (DeallocateUsage ac u i ureq uu au now s) = Inl NotFound \<longleftrightarrow>
      CheckPermission ac u i [QuotaPermissionRead] = Inr True \<and>
      \<not> list_ex (\<lambda>r. ID r = i \<and> Status r \<noteq> QuotaStatusDeleted) (quotas (store s))) \<and>
   (\<not> failed tx \<and> r \<in> set (quotas (work tx)) \<and> ID r = i \<and> Status r = QuotaStatusSuspended \<longrightarrow>
      (\<exists>q. getQuotaForUpdateTx tx i = Inr q \<and> ID q = i)) \<and>
   getQuotaForUpdateTx (tx\<lparr>work := suspend_db j (work tx)\<rparr>) i =
      map_sum id (suspend j) (getQuotaForUpdateTx tx i) \<and>
   GetQuota ac u i (suspend_sys j s) =
      (map_sum id (suspend j) (fst (GetQuota ac u i s)), suspend_sys j (snd (GetQuota ac u i s))) \<and>
   (j \<noteq> ''quota_'' @ qu \<longrightarrow>
      AllocateQuota ac u i areq qu au now (suspend_sys j s) =
        (fst (AllocateQuota ac u i areq qu au now s),
         suspend_sys j (snd (AllocateQuota ac u i areq qu au now s)))) \<and>
   ReleaseQuota ac u i au now (suspend_sys j s) =
      (fst (ReleaseQuota ac u i au now s), suspend_sys j (snd (ReleaseQuota ac u i au now s))) \<and>
   AllocateUsage ac u i ureq uu au now (suspend_sys j s) =
      (fst (AllocateUsage ac u i ureq uu au now s),
       suspend_sys j (snd (AllocateUsage ac u i ureq uu au now s))) \<and>
   DeallocateUsage ac u i ureq uu au now (suspend_sys j s) =
      (fst (DeallocateUsage ac u i ureq uu au now s),
       suspend_sys j (snd (DeallocateUsage ac u i ureq uu au now s)))"
  using suspended_found [of tx r i] suspend_AllocateQuota [of j qu ac u i areq au now s]
  by (simp only: NotFound_getQuotaForUpdateTx NotFound_GetQuota NotFound_AllocateQuota
      NotFound_ReleaseQuota NotFound_AllocateUsage NotFound_DeallocateUsage
      suspend_getQuotaForUpdateTx suspend_GetQuota suspend_ReleaseQuota suspend_AllocateUsage
      suspend_DeallocateUsage) blast

lemma ex_released_rows:
  "map (\<lambda>q. (ID q, Status q)) (quotas (store (snd (ReleaseQuota ex_allow ex_user ''quota_r'' ''a3'' 3
      ex_root_sys)))) = [(''quota_r'', ''deleted'')]"
  by (simp add: ReleaseQuota_eq ex_eval)

theorem C10_lookup_excludes_deleted_only_witness:
  "AllocateUsage ex_allow ex_user ''quota_r'' ex_usage ''u1'' ''a1'' 2
       (suspend_sys ''quota_r'' ex_root_sys)
     = (Inr (), suspend_sys ''quota_r''
          (snd (AllocateUsage ex_allow ex_user ''quota_r'' ex_usage ''u1'' ''a1'' 2 ex_root_sys))) \<and>
   map (\<lambda>q. (ID q, Status q, sint (UsedMB q)))
     (quotas (store (snd (AllocateUsage ex_allow ex_user ''quota_r'' ex_usage ''u1'' ''a1'' 2
       (suspend_sys ''quota_r'' ex_root_sys))))) = [(''quota_r'', ''suspended'', 100)] \<and>
   (\<exists>q. getQuotaForUpdateTx (fresh_tx (suspend_sys ''quota_r'' ex_root_sys)) ''quota_r'' = Inr q \<and>
        ID q = ''quota_r'') \<and>
   fst (AllocateQuota ex_allow ex_user ''quota_r'' ex_alloc ''c'' ''a2'' 2
       (suspend_sys ''quota_r'' ex_root_sys))
     = fst (AllocateQuota ex_allow ex_user ''quota_r'' ex_alloc ''c'' ''a2'' 2 ex_root_sys) \<and>
   fst (GetQuota ex_allow ex_user ''quota_r''
       (snd (ReleaseQuota ex_allow ex_user ''quota_r'' ''a3'' 3 ex_root_sys))) = Inl NotFound"
proof -
  let ?S = "suspend_sys ''quota_r'' ex_root_sys"
  let ?D = "snd (ReleaseQuota ex_allow ex_user ''quota_r'' ''a3'' 3 ex_root_sys)"
  note inst = C10_lookup_excludes_deleted_only [where ac = ex_allow and u = ex_user
      and i = "''quota_r''" and j = "''quota_r''" and ureq = ex_usage and uu = "''u1''"
      and areq = ex_alloc and qu = "''c''"]
  have p: "CheckPermission ex_allow ex_user ''quota_r'' [QuotaPermissionRead] = Inr True"
    by (simp add: ex_allow_def)
  have a: "AllocateUsage ex_allow ex_user ''quota_r'' ex_usage ''u1'' ''a1'' 2 ?S
     = (Inr (), suspend_sys ''quota_r''
          (snd (AllocateUsage ex_allow ex_user ''quota_r'' ex_usage ''u1'' ''a1'' 2 ex_root_sys)))"
    using inst [where s = ex_root_sys and au = "''a1''" and now = 2] by (simp add: ex_usage_sys)
  have b: "map (\<lambda>q. (ID q, Status q, sint (UsedMB q)))
     (quotas (store (snd (AllocateUsage ex_allow ex_user ''quota_r'' ex_usage ''u1'' ''a1'' 2 ?S))))
       = [(''quota_r'', ''suspended'', 100)]"
    unfolding a
    by (simp add: ex_usage_sys suspend_sys_def suspend_db_def suspend_def used_more_def
        generated_def ex_root_def QuotaStatusActive_def QuotaStatusSuspended_def)
  have "\<not> failed (fresh_tx ?S)"
    "suspend ''quota_r'' ex_root \<in> set (quotas (work (fresh_tx ?S)))"
    "ID (suspend ''quota_r'' ex_root) = ''quota_r''"
    "Status (suspend ''quota_r'' ex_root) = QuotaStatusSuspended"
    by (simp_all add: suspend_sys_def suspend_db_def suspend_def ex_root_sys_def ex_root_def
        QuotaStatusActive_def)
  with inst [where tx = "fresh_tx ?S" and r = "suspend ''quota_r'' ex_root"]
  have c: "\<exists>q. getQuotaForUpdateTx (fresh_tx ?S) ''quota_r'' = Inr q \<and> ID q = ''quota_r''"
    by blast
  have d: "fst (AllocateQuota ex_allow ex_user ''quota_r'' ex_alloc ''c'' ''a2'' 2 ?S)
     = fst (AllocateQuota ex_allow ex_user ''quota_r'' ex_alloc ''c'' ''a2'' 2 ex_root_sys)"
    using inst [where s = ex_root_sys and au = "''a2''" and now = 2] by simp
  have "\<not> list_ex (\<lambda>r. ID r = ''quota_r'' \<and> Status r \<noteq> QuotaStatusDeleted) (quotas (store ?D))"
    using ex_released_rows
    by (auto simp: list_ex_iff QuotaStatusDeleted_def)
  with inst [where s = ?D] p
  have e: "fst (GetQuota ex_allow ex_user ''quota_r'' ?D) = Inl NotFound"
    by blast
  from a b c d e show ?thesis
    by blast
qed

end
